theory Spec2Isabelle
  imports Main
begin

section \<open>Text operations of the orchestrator\<close>

text \<open>
  Text is modelled over the code points 0..255 (HOL's \<open>char\<close>). On that range Python's
  \<open>str.isspace\<close> holds for 9..13, 28..32, 133 and 160, and \<open>str.lower\<close> adds 32 to
  65..90 and to 192..222 except 215, leaving every other code point alone.
\<close>

definition py_isspace :: "char \<Rightarrow> bool" where
  "py_isspace c =
     (let n = (of_char c :: nat)
      in (9 \<le> n \<and> n \<le> 13) \<or> (28 \<le> n \<and> n \<le> 32) \<or> n = 133 \<or> n = 160)"

definition py_lower_char :: "char \<Rightarrow> char" where
  "py_lower_char c =
     (let n = (of_char c :: nat)
      in if (65 \<le> n \<and> n \<le> 90) \<or> (192 \<le> n \<and> n \<le> 222 \<and> n \<noteq> 215)
         then char_of (n + 32) else c)"

text \<open>\<open>s.strip()\<close>: leading and trailing whitespace removed.\<close>

definition strip :: "string \<Rightarrow> string" where
  "strip s = rev (dropWhile py_isspace (rev (dropWhile py_isspace s)))"

text \<open>\<open>s.lower()\<close>.\<close>

definition lower :: "string \<Rightarrow> string" where
  "lower s = map py_lower_char s"

text \<open>\<open>pat in s\<close> on strings: \<open>pat\<close> occurs in \<open>s\<close> as a contiguous run.\<close>

fun py_in :: "string \<Rightarrow> string \<Rightarrow> bool" where
  "py_in pat [] = (pat = [])"
| "py_in pat (c # cs) = (take (length pat) (c # cs) = pat \<or> py_in pat cs)"

text \<open>\<open>a or b\<close> on strings: the first operand unless it is empty.\<close>

definition py_or :: "string \<Rightarrow> string \<Rightarrow> string" where
  "py_or a b = (if a \<noteq> [] then a else b)"

section \<open>Parsed JSON and the Python operations applied to it\<close>

text \<open>
  The values \<open>json.loads\<close> returns. An object holds its entries in order; a lookup
  takes the first entry of a key. Numbers are the integer literals: a float behaves like
  an integer in every operation below (false exactly when zero, no \<open>get\<close>, not iterable).
\<close>

datatype json =
    JNull
  | JBool bool
  | JNum int
  | JStr string
  | JArr "json list"
  | JObj "(string \<times> json) list"

datatype py_exception = AttributeError | TypeError | KeyError

text \<open>\<open>v.get(k, dflt)\<close>: only a dict has \<open>get\<close>.\<close>

fun py_get :: "json \<Rightarrow> string \<Rightarrow> json \<Rightarrow> py_exception + json" where
  "py_get (JObj kvs) k dflt = Inr (case map_of kvs k of Some v \<Rightarrow> v | None \<Rightarrow> dflt)"
| "py_get _ k dflt = Inl AttributeError"

text \<open>\<open>for x in v\<close>: a list gives its elements, a dict its keys, a string its characters.\<close>

fun py_iter :: "json \<Rightarrow> py_exception + json list" where
  "py_iter (JArr xs) = Inr xs"
| "py_iter (JObj kvs) = Inr (map (\<lambda>kv. JStr (fst kv)) kvs)"
| "py_iter (JStr s) = Inr (map (\<lambda>c. JStr [c]) s)"
| "py_iter _ = Inl TypeError"

fun py_truthy :: "json \<Rightarrow> bool" where
  "py_truthy JNull = False"
| "py_truthy (JBool b) = b"
| "py_truthy (JNum n) = (n \<noteq> 0)"
| "py_truthy (JStr s) = (s \<noteq> [])"
| "py_truthy (JArr xs) = (xs \<noteq> [])"
| "py_truthy (JObj kvs) = (kvs \<noteq> [])"

section \<open>Command executor\<close>

text \<open>
  One external invocation, as \<open>run_command\<close> passes it to \<open>subprocess.run\<close>, and what
  comes back: a finished process with its return code and the two captured streams, or
  an exception (launch failure, timeout) with its message.
\<close>

record invocation =
  cmd :: "string list"
  cwd :: "string option"
  timeout :: int

datatype proc_outcome = Completed int string string | Raised string

text \<open>
  The cluster and the package tool answer an invocation depending on everything that
  was invoked before it.
\<close>

type_synonym executor = "invocation list \<Rightarrow> invocation \<Rightarrow> proc_outcome"

type_synonym command_result = "int \<times> string \<times> string"

record StoreRequest =
  req_store_name :: string
  req_domain :: string
  req_environment :: string

record StoreResponse =
  resp_id :: string
  resp_store_name :: string
  resp_namespace :: string
  resp_domain :: string
  resp_status :: string
  resp_helm_release :: string
  resp_created_at :: string

text \<open>An entry of the \<open>stores\<close> dictionary.\<close>

record store_meta =
  rec_id :: string
  rec_store_name :: string
  rec_namespace :: string
  rec_domain :: string
  rec_status :: string
  rec_helm_release :: string
  rec_environment :: string
  rec_created_at :: string

text \<open>
  The process state: the in-memory registry \<open>stores\<close> and the log of every invocation
  handed to the executor so far.
\<close>

record state =
  stores :: "string \<rightharpoonup> store_meta"
  calls :: "invocation list"

text \<open>
  What the process is started with: the executor behind \<open>subprocess.run\<close>, the library
  functions \<open>json.loads\<close> (\<open>None\<close> when it raises) and \<open>str\<close> on a parsed value that is
  not a string, and the four paths computed by \<open>_init_paths\<close>.
\<close>

record world =
  ex :: executor
  json_loads :: "string \<Rightarrow> json option"
  py_repr :: "json \<Rightarrow> string"
  REPO_ROOT :: string
  CHART_PATH :: string
  VALUES_LOCAL :: string
  VALUES_PROD :: string

text \<open>
  The values a provision call draws: \<open>str(uuid.uuid4())\<close>, the current time in ISO
  format, and the two \<open>secrets.token_urlsafe(16)\<close> passwords.
\<close>

record draws =
  uuid4 :: string
  now_iso :: string
  root_password :: string
  user_password :: string

text \<open>
  The body of \<open>run_command\<close>'s \<open>try\<close>: both streams of a finished process are stripped;
  any exception becomes code 254 with the message as error text.
\<close>

definition captured :: "proc_outcome \<Rightarrow> command_result" where
  "captured p =
     (case p of
        Completed rc out err \<Rightarrow> (rc, strip out, strip err)
      | Raised msg \<Rightarrow> (254, [], msg))"

definition run_command ::
  "executor \<Rightarrow> string list \<Rightarrow> string option \<Rightarrow> int \<Rightarrow> state \<Rightarrow> command_result \<times> state" where
  "run_command e c d t s =
     (let inv = \<lparr>cmd = c, cwd = d, timeout = t\<rparr>
      in (captured (e (calls s) inv), s\<lparr>calls := calls s @ [inv]\<rparr>))"

section \<open>Routing conflict checker\<close>

record ConflictInfo =
  c_namespace :: json
  c_ingress :: json

text \<open>The inner loop \<open>for r in rules\<close>: whether some rule's host equals the query.\<close>

fun rule_loop :: "json list \<Rightarrow> string \<Rightarrow> py_exception + bool" where
  "rule_loop [] host = Inr False"
| "rule_loop (r # rs) host =
     (case py_get r ''host'' JNull of
        Inl e \<Rightarrow> Inl e
      | Inr h \<Rightarrow> if h = JStr host then Inr True else rule_loop rs host)"

text \<open>The outer loop \<open>for item in payload.get("items", [])\<close>.\<close>

fun item_loop :: "json list \<Rightarrow> string \<Rightarrow> py_exception + ConflictInfo option" where
  "item_loop [] host = Inr None"
| "item_loop (item # items) host =
     (case py_get item ''metadata'' (JObj []) of Inl e \<Rightarrow> Inl e | Inr md \<Rightarrow>
     (case py_get md ''namespace'' (JStr []) of Inl e \<Rightarrow> Inl e | Inr ns \<Rightarrow>
     (case py_get item ''metadata'' (JObj []) of Inl e \<Rightarrow> Inl e | Inr md' \<Rightarrow>
     (case py_get md' ''name'' (JStr []) of Inl e \<Rightarrow> Inl e | Inr name \<Rightarrow>
     (case py_get item ''spec'' (JObj []) of Inl e \<Rightarrow> Inl e | Inr sp \<Rightarrow>
     (case py_get sp ''rules'' (JArr []) of Inl e \<Rightarrow> Inl e | Inr rl \<Rightarrow>
     (case py_iter (if py_truthy rl then rl else JArr []) of Inl e \<Rightarrow> Inl e | Inr rules \<Rightarrow>
     (case rule_loop rules host of
        Inl e \<Rightarrow> Inl e
      | Inr found \<Rightarrow>
          if found then Inr (Some \<lparr>c_namespace = ns, c_ingress = name\<rparr>)
          else item_loop items host))))))))"

definition kubectl_get_ingress :: "string list" where
  "kubectl_get_ingress = [''kubectl'', ''get'', ''ingress'', ''-A'', ''-o'', ''json'']"

definition ingress_host_exists ::
  "world \<Rightarrow> string \<Rightarrow> state \<Rightarrow> (py_exception + ConflictInfo option) \<times> state" where
  "ingress_host_exists w host s =
     (case run_command (ex w) kubectl_get_ingress None 600 s of
        ((rc, out, err), s') \<Rightarrow>
          if rc \<noteq> 0 \<or> out = [] then (Inr None, s')
          else (case json_loads w out of
                  None \<Rightarrow> (Inr None, s')
                | Some payload \<Rightarrow>
                    (case py_get payload ''items'' (JArr []) of
                       Inl e \<Rightarrow> (Inl e, s')
                     | Inr its \<Rightarrow>
                         (case py_iter its of
                            Inl e \<Rightarrow> (Inl e, s')
                          | Inr items \<Rightarrow> (item_loop items host, s')))))"

section \<open>Provisioning and deprovisioning\<close>

text \<open>
  What crosses the boundary instead of a result: an \<open>HTTPException\<close> with its status code
  and detail, or an exception of the conflict checker that no handler catches.
\<close>

datatype failure = HTTPException int string | Uncaught py_exception

text \<open>The two results of \<open>delete_store\<close>.\<close>

datatype delete_result =
    UninstallError string int string string
  | Deleted string string

text \<open>The command lines the two endpoints build.\<close>

definition kubectl_create_namespace :: "string \<Rightarrow> string list" where
  "kubectl_create_namespace namespace = [''kubectl'', ''create'', ''namespace'', namespace]"

definition kubectl_create_secret :: "string \<Rightarrow> string \<Rightarrow> string \<Rightarrow> string \<Rightarrow> string list" where
  "kubectl_create_secret secret_name root_pw user_pw namespace =
     [''kubectl'', ''create'', ''secret'', ''generic'', secret_name,
      ''--from-literal=root-password='' @ root_pw,
      ''--from-literal=user-password='' @ user_pw,
      ''--namespace='' @ namespace]"

definition helm_cmd :: "string \<Rightarrow> string \<Rightarrow> string \<Rightarrow> string \<Rightarrow> string \<Rightarrow> string list" where
  "helm_cmd release chart namespace values_file domain =
     [''helm'', ''install'', release, chart,
      ''--namespace'', namespace,
      ''--values'', values_file,
      ''--set'', ''ingress.host='' @ domain,
      ''--set'', ''storeName='' @ namespace,
      ''--wait'',
      ''--timeout'', ''10m'']"

definition helm_uninstall :: "string \<Rightarrow> string \<Rightarrow> string list" where
  "helm_uninstall release namespace = [''helm'', ''uninstall'', release, ''-n'', namespace]"

definition kubectl_delete_namespace :: "string \<Rightarrow> string list" where
  "kubectl_delete_namespace namespace = [''kubectl'', ''delete'', ''namespace'', namespace]"

text \<open>
  \<open>stores[store_id]["status"] = v\<close>. In \<open>create_store\<close> the entry was stored earlier in
  the same call and nothing removes it in between.
\<close>

definition set_status :: "string \<Rightarrow> string \<Rightarrow> state \<Rightarrow> state" where
  "set_status store_id v s =
     s\<lparr>stores := (stores s)(store_id := map_option (\<lambda>m. m\<lparr>rec_status := v\<rparr>) (stores s store_id))\<rparr>"

text \<open>\<open>StoreResponse(**meta)\<close>: the entry without its environment.\<close>

definition to_response :: "store_meta \<Rightarrow> StoreResponse" where
  "to_response m =
     \<lparr>resp_id = rec_id m, resp_store_name = rec_store_name m,
      resp_namespace = rec_namespace m, resp_domain = rec_domain m,
      resp_status = rec_status m, resp_helm_release = rec_helm_release m,
      resp_created_at = rec_created_at m\<rparr>"

text \<open>A parsed value inside an f-string: a string as it is, anything else through \<open>str\<close>.\<close>

definition py_format :: "world \<Rightarrow> json \<Rightarrow> string" where
  "py_format w v = (case v of JStr s \<Rightarrow> s | _ \<Rightarrow> py_repr w v)"

definition conflict_detail :: "world \<Rightarrow> string \<Rightarrow> ConflictInfo \<Rightarrow> string" where
  "conflict_detail w domain conflict =
     ''ingress host conflict: host '' @ [CHR 0x27] @ domain @ [CHR 0x27] @ '' already used in ''
       @ py_format w (c_namespace conflict) @ ''/'' @ py_format w (c_ingress conflict)"

text \<open>
  The test after each of the two create commands:
  \<open>rc != 0 and "already exists" not in (err or out).lower()\<close>.
\<close>

definition creation_failed :: "int \<Rightarrow> string \<Rightarrow> string \<Rightarrow> bool" where
  "creation_failed rc out err =
     (rc \<noteq> 0 \<and> \<not> py_in ''already exists'' (lower (py_or err out)))"

definition create_store ::
  "world \<Rightarrow> draws \<Rightarrow> StoreRequest \<Rightarrow> state \<Rightarrow> (failure + StoreResponse) \<times> state" where
  "create_store w d req s0 =
     (let store_name = lower (strip (req_store_name req));
          domain = strip (req_domain req);
          env = lower (strip (req_environment req))
      in if store_name = [] \<or> domain = []
         then (Inl (HTTPException 400 ''store_name and domain are required''), s0)
         else
          (let store_id = take 8 (uuid4 d);
               namespace = store_name @ ''-'' @ store_id;
               release = store_name @ ''-'' @ store_id;
               created_at = now_iso d;
               s1 = s0\<lparr>stores := (stores s0)(store_id \<mapsto>
                      \<lparr>rec_id = store_id, rec_store_name = store_name,
                       rec_namespace = namespace, rec_domain = domain,
                       rec_status = ''Provisioning'', rec_helm_release = release,
                       rec_environment = env, rec_created_at = created_at\<rparr>)\<rparr>
           in (case ingress_host_exists w domain s1 of
                 (Inl e, s2) \<Rightarrow> (Inl (Uncaught e), s2)
               | (Inr (Some conflict), s2) \<Rightarrow>
                   (Inl (HTTPException 409 (conflict_detail w domain conflict)),
                    set_status store_id ''Failed'' s2)
               | (Inr None, s2) \<Rightarrow>
                  (case run_command (ex w) (kubectl_create_namespace namespace) None 600 s2 of
                     ((rc, out, err), s3) \<Rightarrow>
                       if creation_failed rc out err
                       then (Inl (HTTPException 500 (''Namespace creation failed: '' @ py_or err out)),
                             set_status store_id ''Failed'' s3)
                       else
                        (let secret_name = namespace @ ''-db-secret''
                         in (case run_command (ex w)
                                    (kubectl_create_secret secret_name (root_password d)
                                       (user_password d) namespace) None 600 s3 of
                               ((rc, out, err), s4) \<Rightarrow>
                                 if creation_failed rc out err
                                 then (Inl (HTTPException 500
                                              (''Secret creation failed: '' @ py_or err out)),
                                       set_status store_id ''Failed'' s4)
                                 else
                                  (let values_file =
                                         (if env = ''local'' then VALUES_LOCAL w else VALUES_PROD w)
                                   in (case run_command (ex w)
                                              (helm_cmd release (CHART_PATH w) namespace
                                                 values_file domain)
                                              (Some (REPO_ROOT w)) 600 s4 of
                                         ((rc, out, err), s5) \<Rightarrow>
                                           if rc \<noteq> 0
                                           then
                                            (case run_command (ex w)
                                                   (helm_uninstall release namespace) None 600 s5 of
                                               (_, s6) \<Rightarrow>
                                                (case run_command (ex w)
                                                       (kubectl_delete_namespace namespace)
                                                       None 600 s6 of
                                                   (_, s7) \<Rightarrow>
                                                     (Inl (HTTPException 500
                                                             (''helm install failed: ''
                                                                @ take 1000 (py_or err out))),
                                                      set_status store_id ''Failed'' s7)))
                                           else
                                            (let s6 = set_status store_id ''Ready'' s5
                                             in (case stores s6 store_id of
                                                   Some m \<Rightarrow> (Inr (to_response m), s6)
                                                 | None \<Rightarrow> (Inl (Uncaught KeyError), s6)))))))))))"

definition delete_store ::
  "world \<Rightarrow> string \<Rightarrow> state \<Rightarrow> (failure + delete_result) \<times> state" where
  "delete_store w store_id s0 =
     (case stores s0 store_id of
        None \<Rightarrow> (Inl (HTTPException 404 ''Store not found''), s0)
      | Some meta \<Rightarrow>
         (let namespace = rec_namespace meta;
              release = rec_helm_release meta
          in (case run_command (ex w) (helm_uninstall release namespace) None 600 s0 of
                ((rc, out, err), s1) \<Rightarrow>
                 (case run_command (ex w) (kubectl_delete_namespace namespace) None 600 s1 of
                    ((rc2, out2, err2), s2) \<Rightarrow>
                      (let s3 = s2\<lparr>stores := (stores s2)(store_id := None)\<rparr>
                       in if rc \<noteq> 0
                          then (Inr (UninstallError (take 1000 (py_or err out)) rc2
                                       (take 1000 out2) (take 1000 err2)), s3)
                          else (Inr (Deleted release namespace), s3))))))"

text \<open>The server handling one provision request after another.\<close>

fun provision_all :: "world \<Rightarrow> (draws \<times> StoreRequest) list \<Rightarrow> state \<Rightarrow> state" where
  "provision_all w [] s = s"
| "provision_all w ((d, req) # rest) s = provision_all w rest (snd (create_store w d req s))"

section \<open>Vocabulary of the statements\<close>

text \<open>An invocation with \<open>run_command\<close>'s default arguments, and one with a working directory.\<close>

definition call :: "string list \<Rightarrow> invocation" where
  "call c = \<lparr>cmd = c, cwd = None, timeout = 600\<rparr>"

definition call_in :: "string \<Rightarrow> string list \<Rightarrow> invocation" where
  "call_in dir c = \<lparr>cmd = c, cwd = Some dir, timeout = 600\<rparr>"

text \<open>A request that passes the check for empty fields.\<close>

definition valid_request :: "StoreRequest \<Rightarrow> bool" where
  "valid_request req =
     (lower (strip (req_store_name req)) \<noteq> [] \<and> strip (req_domain req) \<noteq> [])"

text \<open>The name a request and its drawn id give to both the namespace and the release.\<close>

definition namespace_of :: "StoreRequest \<Rightarrow> draws \<Rightarrow> string" where
  "namespace_of req d = lower (strip (req_store_name req)) @ ''-'' @ take 8 (uuid4 d)"

text \<open>The registry entry of a request, in a given status.\<close>

definition new_record :: "StoreRequest \<Rightarrow> draws \<Rightarrow> string \<Rightarrow> store_meta" where
  "new_record req d st =
     \<lparr>rec_id = take 8 (uuid4 d), rec_store_name = lower (strip (req_store_name req)),
      rec_namespace = namespace_of req d, rec_domain = strip (req_domain req),
      rec_status = st, rec_helm_release = namespace_of req d,
      rec_environment = lower (strip (req_environment req)), rec_created_at = now_iso d\<rparr>"

text \<open>The invocations of one provision call, in the order of the source.\<close>

definition inv_get_ingress :: invocation where
  "inv_get_ingress = call kubectl_get_ingress"

definition inv_create_namespace :: "StoreRequest \<Rightarrow> draws \<Rightarrow> invocation" where
  "inv_create_namespace req d = call (kubectl_create_namespace (namespace_of req d))"

definition inv_create_secret :: "StoreRequest \<Rightarrow> draws \<Rightarrow> invocation" where
  "inv_create_secret req d =
     call (kubectl_create_secret (namespace_of req d @ ''-db-secret'') (root_password d)
             (user_password d) (namespace_of req d))"

definition inv_helm_install :: "world \<Rightarrow> StoreRequest \<Rightarrow> draws \<Rightarrow> invocation" where
  "inv_helm_install w req d =
     call_in (REPO_ROOT w)
       (helm_cmd (namespace_of req d) (CHART_PATH w) (namespace_of req d)
          (if lower (strip (req_environment req)) = ''local''
           then VALUES_LOCAL w else VALUES_PROD w)
          (strip (req_domain req)))"

definition inv_helm_uninstall :: "StoreRequest \<Rightarrow> draws \<Rightarrow> invocation" where
  "inv_helm_uninstall req d = call (helm_uninstall (namespace_of req d) (namespace_of req d))"

definition inv_delete_namespace :: "StoreRequest \<Rightarrow> draws \<Rightarrow> invocation" where
  "inv_delete_namespace req d = call (kubectl_delete_namespace (namespace_of req d))"

text \<open>
  A well-formed listing, as the control plane prints it: routes in listing order, each
  with its namespace, its name and the hosts of its rules (a rule may have no host).
\<close>

record route =
  rt_namespace :: string
  rt_name :: string
  rt_hosts :: "string option list"

definition rule_json :: "string option \<Rightarrow> json" where
  "rule_json h = (case h of None \<Rightarrow> JObj [] | Some x \<Rightarrow> JObj [(''host'', JStr x)])"

definition route_json :: "route \<Rightarrow> json" where
  "route_json r =
     JObj [(''metadata'', JObj [(''name'', JStr (rt_name r)),
                                (''namespace'', JStr (rt_namespace r))]),
           (''spec'', JObj [(''rules'', JArr (map rule_json (rt_hosts r)))])]"

definition listing_json :: "route list \<Rightarrow> json" where
  "listing_json rs =
     JObj [(''apiVersion'', JStr ''v1''), (''items'', JArr (map route_json rs)),
           (''kind'', JStr ''List'')]"

text \<open>
  A listing of the expected shape, whatever other keys it carries: an object whose
  \<open>items\<close> (when present) is a list of route objects. In a route object \<open>metadata\<close> and
  \<open>spec\<close> are objects when present, and \<open>rules\<close> is absent, null or a list of rule
  objects.
\<close>

fun is_obj :: "json \<Rightarrow> bool" where
  "is_obj (JObj kvs) = True"
| "is_obj _ = False"

text \<open>The value of a key in an object, or the given value when the key is absent.\<close>

fun field :: "json \<Rightarrow> string \<Rightarrow> json \<Rightarrow> json" where
  "field (JObj kvs) k dflt = (case map_of kvs k of Some v \<Rightarrow> v | None \<Rightarrow> dflt)"
| "field _ k dflt = dflt"

fun wf_rules :: "json \<Rightarrow> bool" where
  "wf_rules (JArr rs) = list_all is_obj rs"
| "wf_rules JNull = True"
| "wf_rules _ = False"

fun rules_of :: "json \<Rightarrow> json list" where
  "rules_of (JArr rs) = rs"
| "rules_of _ = []"

definition wf_route :: "json \<Rightarrow> bool" where
  "wf_route item =
     (is_obj item \<and> is_obj (field item ''metadata'' (JObj [])) \<and>
      is_obj (field item ''spec'' (JObj [])) \<and>
      wf_rules (field (field item ''spec'' (JObj [])) ''rules'' (JArr [])))"

fun wf_items :: "json \<Rightarrow> bool" where
  "wf_items (JArr items) = list_all wf_route items"
| "wf_items _ = False"

definition wf_listing :: "json \<Rightarrow> bool" where
  "wf_listing payload = (is_obj payload \<and> wf_items (field payload ''items'' (JArr [])))"

text \<open>The routes of a listing in listing order, and the rules of a route.\<close>

definition listing_items :: "json \<Rightarrow> json list" where
  "listing_items payload = rules_of (field payload ''items'' (JArr []))"

definition route_rules :: "json \<Rightarrow> json list" where
  "route_rules item = rules_of (field (field item ''spec'' (JObj [])) ''rules'' (JArr []))"

text \<open>A route claims a host when one of its rules has exactly that string as its host.\<close>

definition has_host :: "string \<Rightarrow> json \<Rightarrow> bool" where
  "has_host host item = list_ex (\<lambda>r. field r ''host'' JNull = JStr host) (route_rules item)"

text \<open>What the checker reports about a route: its namespace and its name.\<close>

definition conflict_of :: "json \<Rightarrow> ConflictInfo" where
  "conflict_of item =
     \<lparr>c_namespace = field (field item ''metadata'' (JObj [])) ''namespace'' (JStr []),
      c_ingress = field (field item ''metadata'' (JObj [])) ''name'' (JStr [])\<rparr>"

text \<open>The 8-character ids drawn by a sequence of provision calls.\<close>

definition ids_of :: "(draws \<times> StoreRequest) list \<Rightarrow> string list" where
  "ids_of xs = map (\<lambda>x. take 8 (uuid4 (fst x))) xs"

section \<open>Sample worlds\<close>

definition sample_world :: "executor \<Rightarrow> (string \<Rightarrow> json option) \<Rightarrow> world" where
  "sample_world e l =
     \<lparr>ex = e, json_loads = l, py_repr = (\<lambda>v. ''?''),
      REPO_ROOT = ''/srv/platform'', CHART_PATH = ''/srv/platform/helm/woocommerce'',
      VALUES_LOCAL = ''/srv/platform/values-local.yaml'',
      VALUES_PROD = ''/srv/platform/values-prod.yaml''\<rparr>"

definition no_json :: "string \<Rightarrow> json option" where
  "no_json out = None"

definition sample_draws :: "string \<Rightarrow> draws" where
  "sample_draws u =
     \<lparr>uuid4 = u, now_iso = ''2024-05-01T10:00:00+00:00'',
      root_password = ''r00t-secret'', user_password = ''us3r-secret''\<rparr>"

definition acme_request :: StoreRequest where
  "acme_request =
     \<lparr>req_store_name = ''  Acme '', req_domain = '' acme.example.com'',
      req_environment = '' Local ''\<rparr>"

definition empty_state :: state where
  "empty_state = \<lparr>stores = Map.empty, calls = []\<rparr>"

text \<open>Every command succeeds and prints nothing.\<close>

definition ex_quiet :: executor where
  "ex_quiet tr i = Completed 0 [] []"

text \<open>The chart installation fails, and so do both cleanup commands.\<close>

definition ex_install_fails :: executor where
  "ex_install_fails tr i =
     (if take 2 (cmd i) = [''helm'', ''install'']
      then Completed 1 [] ''Error: timed out waiting for the condition''
      else if take 2 (cmd i) = [''helm'', ''uninstall'']
      then Completed 1 [] ''Error: uninstall: Release not loaded''
      else if take 2 (cmd i) = [''kubectl'', ''delete'']
      then Raised ''Command timed out after 600 seconds''
      else Completed 0 [] [])"

text \<open>The listing command prints a listing; every other command succeeds.\<close>

definition ex_listing :: executor where
  "ex_listing tr i =
     (if take 2 (cmd i) = [''kubectl'', ''get'']
      then Completed 0 ''(listing)'' []
      else Completed 0 [] [])"

definition sample_routes :: "route list" where
  "sample_routes =
     [\<lparr>rt_namespace = ''blue-11112222'', rt_name = ''blue'',
       rt_hosts = [None, Some ''Acme.example.com'']\<rparr>,
      \<lparr>rt_namespace = ''shop-0a0b0c0d'', rt_name = ''shop'',
       rt_hosts = [Some ''shop.example.com'', Some ''acme.example.com'']\<rparr>,
      \<lparr>rt_namespace = ''late-33334444'', rt_name = ''late'',
       rt_hosts = [Some ''acme.example.com'']\<rparr>]"

definition loads_routes :: "string \<Rightarrow> json option" where
  "loads_routes out = Some (listing_json sample_routes)"

text \<open>
  A listing with the keys the control plane prints: a first route without rules, a
  second whose host differs from the sample domain in letter case only, and two routes
  that both claim the sample domain.
\<close>

definition kubectl_listing :: json where
  "kubectl_listing =
     JObj [(''apiVersion'', JStr ''v1''),
           (''items'', JArr
              [JObj [(''apiVersion'', JStr ''networking.k8s.io/v1''), (''kind'', JStr ''Ingress''),
                     (''metadata'', JObj [(''name'', JStr ''plain''),
                                          (''namespace'', JStr ''plain-55556666'')]),
                     (''spec'', JObj [(''ingressClassName'', JStr ''nginx'')]),
                     (''status'', JObj [])],
               JObj [(''apiVersion'', JStr ''networking.k8s.io/v1''), (''kind'', JStr ''Ingress''),
                     (''metadata'', JObj [(''name'', JStr ''blue''),
                                          (''namespace'', JStr ''blue-11112222'')]),
                     (''spec'', JObj [(''rules'', JArr
                        [JObj [(''http'', JObj [])],
                         JObj [(''host'', JStr ''Acme.example.com''), (''http'', JObj [])]])]),
                     (''status'', JObj [])],
               JObj [(''apiVersion'', JStr ''networking.k8s.io/v1''), (''kind'', JStr ''Ingress''),
                     (''metadata'', JObj [(''name'', JStr ''shop''),
                                          (''namespace'', JStr ''shop-0a0b0c0d'')]),
                     (''spec'', JObj [(''ingressClassName'', JStr ''nginx''),
                        (''rules'', JArr
                        [JObj [(''host'', JStr ''shop.example.com''), (''http'', JObj [])],
                         JObj [(''host'', JStr ''acme.example.com''), (''http'', JObj [])]])]),
                     (''status'', JObj [])],
               JObj [(''apiVersion'', JStr ''networking.k8s.io/v1''), (''kind'', JStr ''Ingress''),
                     (''metadata'', JObj [(''name'', JStr ''late''),
                                          (''namespace'', JStr ''late-33334444'')]),
                     (''spec'', JObj [(''rules'', JArr
                        [JObj [(''host'', JStr ''acme.example.com''), (''http'', JObj [])]])]),
                     (''status'', JObj [])]]),
           (''kind'', JStr ''List''),
           (''metadata'', JObj [(''resourceVersion'', JStr [])])]"

definition loads_kubectl :: "string \<Rightarrow> json option" where
  "loads_kubectl out = Some kubectl_listing"

text \<open>The listing command prints a JSON array.\<close>

definition ex_array :: executor where
  "ex_array tr i = Completed 0 ''[]'' []"

definition loads_array :: "string \<Rightarrow> json option" where
  "loads_array out = (if out = ''[]'' then Some (JArr []) else None)"

text \<open>
  The namespace exists already (the tool says so on its error stream with a non-zero
  code); the secret command fails for another reason.
\<close>

definition ex_namespace_exists :: executor where
  "ex_namespace_exists tr i =
     (if take 3 (cmd i) = [''kubectl'', ''create'', ''namespace'']
      then Completed 1 [] ''Error from server (AlreadyExists): namespaces Already Exists''
      else if take 3 (cmd i) = [''kubectl'', ''create'', ''secret'']
      then Completed 1 ''partial output'' ''error: failed to create secret''
      else Completed 0 [] [])"

text \<open>
  The namespace command exits non-zero with the words "already exists" on its output
  stream and another message on its error stream.
\<close>

definition ex_split_streams :: executor where
  "ex_split_streams tr i =
     (if take 3 (cmd i) = [''kubectl'', ''create'', ''namespace'']
      then Completed 1 ''namespace already exists'' ''warning: deprecated flag''
      else Completed 0 [] [])"

text \<open>The namespace command fails with two thousand characters of error text.\<close>

definition ex_long_error :: executor where
  "ex_long_error tr i =
     (if take 3 (cmd i) = [''kubectl'', ''create'', ''namespace'']
      then Completed 1 [] (replicate 2000 CHR ''x'')
      else Completed 0 [] [])"

text \<open>The release removal fails; the namespace removal succeeds.\<close>

definition ex_uninstall_fails :: executor where
  "ex_uninstall_fails tr i =
     (if take 2 (cmd i) = [''helm'', ''uninstall'']
      then Completed 1 ''partial'' ''Error: uninstall: Release not loaded''
      else Completed 0 ''namespace deleted'' [])"

definition ready_state :: state where
  "ready_state =
     \<lparr>stores = [''1a2b3c4d'' \<mapsto>
        \<lparr>rec_id = ''1a2b3c4d'', rec_store_name = ''acme'',
         rec_namespace = ''acme-1a2b3c4d'', rec_domain = ''acme.example.com'',
         rec_status = ''Ready'', rec_helm_release = ''acme-1a2b3c4d'',
         rec_environment = ''local'', rec_created_at = ''2024-05-01T10:00:00+00:00''\<rparr>],
      calls = []\<rparr>"

definition beta_request :: StoreRequest where
  "beta_request =
     \<lparr>req_store_name = ''beta'', req_domain = ''beta.example.com'',
      req_environment = ''prod''\<rparr>"

section \<open>Basic facts\<close>

lemmas text_eval = lower_def py_lower_char_def char_of_def strip_def py_isspace_def
  bit_Suc_0_iff py_or_def

lemmas inv_defs = inv_get_ingress_def inv_create_namespace_def inv_create_secret_def
  inv_helm_install_def inv_helm_uninstall_def inv_delete_namespace_def namespace_of_def
  new_record_def

lemmas cmd_defs = kubectl_get_ingress_def kubectl_create_namespace_def kubectl_create_secret_def
  helm_cmd_def helm_uninstall_def kubectl_delete_namespace_def call_def call_in_def

lemmas sample_defs = sample_world_def sample_draws_def acme_request_def empty_state_def
  beta_request_def ready_state_def no_json_def

lemma run_command_default:
  "run_command e c None 600 s = (captured (e (calls s) (call c)), s\<lparr>calls := calls s @ [call c]\<rparr>)"
  by (simp add: run_command_def call_def Let_def)

lemma run_command_in:
  "run_command e c (Some dir) 600 s =
     (captured (e (calls s) (call_in dir c)), s\<lparr>calls := calls s @ [call_in dir c]\<rparr>)"
  by (simp add: run_command_def call_in_def Let_def)

lemma ingress_host_exists_state:
  "snd (ingress_host_exists w host s) = s\<lparr>calls := calls s @ [inv_get_ingress]\<rparr>"
  by (simp add: ingress_host_exists_def run_command_default inv_get_ingress_def
        split: prod.splits option.splits sum.splits)

lemma ingress_host_exists_stores:
  "fst (ingress_host_exists w host (s\<lparr>stores := m\<rparr>)) = fst (ingress_host_exists w host s)"
  by (simp add: ingress_host_exists_def run_command_default
        split: prod.splits option.splits sum.splits)

lemma ingress_verdict:
  assumes "fst (ingress_host_exists w host s) = v"
  shows "ingress_host_exists w host (s\<lparr>stores := m\<rparr>) =
           (v, \<lparr>stores = m, calls = calls s @ [inv_get_ingress]\<rparr>)"
proof -
  have "fst (ingress_host_exists w host (s\<lparr>stores := m\<rparr>)) = v"
    using assms by (simp add: ingress_host_exists_stores)
  moreover have "snd (ingress_host_exists w host (s\<lparr>stores := m\<rparr>)) =
                   \<lparr>stores = m, calls = calls s @ [inv_get_ingress]\<rparr>"
    by (simp add: ingress_host_exists_state)
  ultimately show ?thesis by (simp add: prod_eq_iff)
qed

section \<open>Deprovisioning\<close>

text \<open>
  Claim C6. Deprovisioning an id that is not in the registry returns the 404 "Store not
  found" error and leaves the whole state as it was: the registry is unchanged and no
  invocation is added to the log.
\<close>

theorem deprovision_unknown_id:
  assumes "stores s store_id = None"
  shows "delete_store w store_id s = (Inl (HTTPException 404 ''Store not found''), s)"
  using assms by (simp add: delete_store_def)

theorem deprovision_unknown_id_witness:
  "stores ready_state ''ffffffff'' = None \<and>
   delete_store (sample_world ex_uninstall_fails no_json) ''ffffffff'' ready_state =
     (Inl (HTTPException 404 ''Store not found''), ready_state) \<and>
   calls ready_state = []"
proof -
  have h: "stores ready_state ''ffffffff'' = None"
    by (simp add: ready_state_def)
  show ?thesis
    using h deprovision_unknown_id [OF h, of "sample_world ex_uninstall_fails no_json"]
    by (simp add: ready_state_def)
qed

text \<open>
  Claim C5. Deprovisioning an id that is in the registry invokes the release removal and
  then the namespace removal, whatever the first returned, and removes the registry entry
  whatever either returned. When the release removal returned non-zero the result is the
  partial-failure report with the first 1000 characters of that command's error text (its
  output when the error text is empty), and the namespace command's code with the first
  1000 characters of each of its streams; otherwise it is the "deleted" result.
\<close>

theorem deprovision_known_id:
  assumes "stores s store_id = Some meta"
    and "captured (ex w (calls s)
            (call (helm_uninstall (rec_helm_release meta) (rec_namespace meta)))) = (rc, out, err)"
    and "captured (ex w
            (calls s @ [call (helm_uninstall (rec_helm_release meta) (rec_namespace meta))])
            (call (kubectl_delete_namespace (rec_namespace meta)))) = (rc2, out2, err2)"
  shows "delete_store w store_id s =
     (Inr (if rc \<noteq> 0
           then UninstallError (take 1000 (py_or err out)) rc2 (take 1000 out2) (take 1000 err2)
           else Deleted (rec_helm_release meta) (rec_namespace meta)),
      \<lparr>stores = (stores s)(store_id := None),
       calls = calls s @ [call (helm_uninstall (rec_helm_release meta) (rec_namespace meta)),
                          call (kubectl_delete_namespace (rec_namespace meta))]\<rparr>)"
  using assms by (simp add: delete_store_def run_command_default Let_def)

theorem deprovision_known_id_witness:
  "delete_store (sample_world ex_uninstall_fails no_json) ''1a2b3c4d'' ready_state =
     (Inr (UninstallError ''Error: uninstall: Release not loaded'' 0 ''namespace deleted'' []),
      \<lparr>stores = Map.empty,
       calls = [call [''helm'', ''uninstall'', ''acme-1a2b3c4d'', ''-n'', ''acme-1a2b3c4d''],
                call [''kubectl'', ''delete'', ''namespace'', ''acme-1a2b3c4d'']]\<rparr>)"
proof -
  let ?w = "sample_world ex_uninstall_fails no_json"
  let ?m = "\<lparr>rec_id = ''1a2b3c4d'', rec_store_name = ''acme'',
         rec_namespace = ''acme-1a2b3c4d'', rec_domain = ''acme.example.com'',
         rec_status = ''Ready'', rec_helm_release = ''acme-1a2b3c4d'',
         rec_environment = ''local'', rec_created_at = ''2024-05-01T10:00:00+00:00''\<rparr>"
  have h1: "stores ready_state ''1a2b3c4d'' = Some ?m"
    by (simp add: ready_state_def)
  have h2: "captured (ex ?w (calls ready_state)
            (call (helm_uninstall (rec_helm_release ?m) (rec_namespace ?m))))
          = (1, ''partial'', ''Error: uninstall: Release not loaded'')"
    by (simp add: sample_defs ex_uninstall_fails_def captured_def cmd_defs text_eval)
  have h3: "captured (ex ?w
            (calls ready_state @ [call (helm_uninstall (rec_helm_release ?m) (rec_namespace ?m))])
            (call (kubectl_delete_namespace (rec_namespace ?m)))) = (0, ''namespace deleted'', [])"
    by (simp add: sample_defs ex_uninstall_fails_def captured_def cmd_defs text_eval)
  show ?thesis
    using deprovision_known_id [OF h1 h2 h3]
    by (simp add: ready_state_def cmd_defs py_or_def)
qed


section \<open>Provisioning, branch by branch\<close>

lemma create_store_invalid:
  assumes "\<not> valid_request req"
  shows "create_store w d req s =
           (Inl (HTTPException 400 ''store_name and domain are required''), s)"
  using assms by (simp add: create_store_def valid_request_def Let_def)

lemma create_store_uncaught:
  assumes "valid_request req"
    and "fst (ingress_host_exists w (strip (req_domain req)) s) = Inl e"
  shows "create_store w d req s =
     (Inl (Uncaught e),
      \<lparr>stores = (stores s)(take 8 (uuid4 d) \<mapsto> new_record req d ''Provisioning''),
       calls = calls s @ [inv_get_ingress]\<rparr>)"
  using assms(1)
  by (simp add: create_store_def Let_def valid_request_def ingress_verdict[OF assms(2)]
        set_status_def inv_defs)

lemma create_store_conflict:
  assumes "valid_request req"
    and "fst (ingress_host_exists w (strip (req_domain req)) s) = Inr (Some c)"
  shows "create_store w d req s =
     (Inl (HTTPException 409 (conflict_detail w (strip (req_domain req)) c)),
      \<lparr>stores = (stores s)(take 8 (uuid4 d) \<mapsto> new_record req d ''Failed''),
       calls = calls s @ [inv_get_ingress]\<rparr>)"
  using assms(1)
  by (simp add: create_store_def Let_def valid_request_def ingress_verdict[OF assms(2)]
        set_status_def inv_defs)

lemma create_store_namespace_failed:
  assumes "valid_request req"
    and "fst (ingress_host_exists w (strip (req_domain req)) s) = Inr None"
    and "captured (ex w (calls s @ [inv_get_ingress]) (inv_create_namespace req d))
           = (rc1, out1, err1)"
    and "creation_failed rc1 out1 err1"
  shows "create_store w d req s =
     (Inl (HTTPException 500 (''Namespace creation failed: '' @ py_or err1 out1)),
      \<lparr>stores = (stores s)(take 8 (uuid4 d) \<mapsto> new_record req d ''Failed''),
       calls = calls s @ [inv_get_ingress, inv_create_namespace req d]\<rparr>)"
  using assms(1,3-)
  by (simp add: create_store_def Let_def valid_request_def ingress_verdict[OF assms(2)]
        set_status_def inv_defs run_command_default run_command_in
        split del: if_split)

lemma create_store_secret_failed:
  assumes "valid_request req"
    and "fst (ingress_host_exists w (strip (req_domain req)) s) = Inr None"
    and "captured (ex w (calls s @ [inv_get_ingress]) (inv_create_namespace req d))
           = (rc1, out1, err1)"
    and "\<not> creation_failed rc1 out1 err1"
    and "captured (ex w (calls s @ [inv_get_ingress, inv_create_namespace req d])
           (inv_create_secret req d)) = (rc2, out2, err2)"
    and "creation_failed rc2 out2 err2"
  shows "create_store w d req s =
     (Inl (HTTPException 500 (''Secret creation failed: '' @ py_or err2 out2)),
      \<lparr>stores = (stores s)(take 8 (uuid4 d) \<mapsto> new_record req d ''Failed''),
       calls = calls s @ [inv_get_ingress, inv_create_namespace req d,
                 inv_create_secret req d]\<rparr>)"
  using assms(1,3-)
  by (simp add: create_store_def Let_def valid_request_def ingress_verdict[OF assms(2)]
        set_status_def inv_defs run_command_default run_command_in
        split del: if_split)

lemma create_store_install_failed:
  assumes "valid_request req"
    and "fst (ingress_host_exists w (strip (req_domain req)) s) = Inr None"
    and "captured (ex w (calls s @ [inv_get_ingress]) (inv_create_namespace req d))
           = (rc1, out1, err1)"
    and "\<not> creation_failed rc1 out1 err1"
    and "captured (ex w (calls s @ [inv_get_ingress, inv_create_namespace req d])
           (inv_create_secret req d)) = (rc2, out2, err2)"
    and "\<not> creation_failed rc2 out2 err2"
    and "captured (ex w (calls s @ [inv_get_ingress, inv_create_namespace req d,
           inv_create_secret req d]) (inv_helm_install w req d)) = (rc, out, err)"
    and "rc \<noteq> 0"
  shows "create_store w d req s =
     (Inl (HTTPException 500 (''helm install failed: '' @ take 1000 (py_or err out))),
      \<lparr>stores = (stores s)(take 8 (uuid4 d) \<mapsto> new_record req d ''Failed''),
       calls = calls s @ [inv_get_ingress, inv_create_namespace req d,
                 inv_create_secret req d, inv_helm_install w req d,
                 inv_helm_uninstall req d, inv_delete_namespace req d]\<rparr>)"
  using assms(1,3-)
  by (simp add: create_store_def Let_def valid_request_def ingress_verdict[OF assms(2)]
        set_status_def inv_defs run_command_default run_command_in
        split: prod.splits split del: if_split)

lemma create_store_ready:
  assumes "valid_request req"
    and "fst (ingress_host_exists w (strip (req_domain req)) s) = Inr None"
    and "captured (ex w (calls s @ [inv_get_ingress]) (inv_create_namespace req d))
           = (rc1, out1, err1)"
    and "\<not> creation_failed rc1 out1 err1"
    and "captured (ex w (calls s @ [inv_get_ingress, inv_create_namespace req d])
           (inv_create_secret req d)) = (rc2, out2, err2)"
    and "\<not> creation_failed rc2 out2 err2"
    and "captured (ex w (calls s @ [inv_get_ingress, inv_create_namespace req d,
           inv_create_secret req d]) (inv_helm_install w req d)) = (0, out, err)"
  shows "create_store w d req s =
     (Inr (to_response (new_record req d ''Ready'')),
      \<lparr>stores = (stores s)(take 8 (uuid4 d) \<mapsto> new_record req d ''Ready''),
       calls = calls s @ [inv_get_ingress, inv_create_namespace req d,
                 inv_create_secret req d, inv_helm_install w req d]\<rparr>)"
  using assms(1,3-)
  by (simp add: create_store_def Let_def valid_request_def ingress_verdict[OF assms(2)]
        set_status_def inv_defs run_command_default run_command_in
        split: prod.splits split del: if_split)


lemmas run_eval = ingress_host_exists_def run_command_def captured_def Let_def

text \<open>
  Claim C2. When the conflict checker reports a match for the requested domain, the
  provision call stores the record as Failed, returns the 409 conflict error, and its only
  invocation is the route listing: no namespace, secret or release command is issued.
\<close>

theorem provision_conflict_creates_nothing:
  assumes "valid_request req"
    and "fst (ingress_host_exists w (strip (req_domain req)) s) = Inr (Some c)"
  shows "create_store w d req s =
     (Inl (HTTPException 409 (conflict_detail w (strip (req_domain req)) c)),
      \<lparr>stores = (stores s)(take 8 (uuid4 d) \<mapsto> new_record req d ''Failed''),
       calls = calls s @ [inv_get_ingress]\<rparr>)"
  using assms by (rule create_store_conflict)

theorem provision_conflict_creates_nothing_witness:
  "valid_request acme_request \<and>
   fst (ingress_host_exists (sample_world ex_listing loads_routes) ''acme.example.com''
          empty_state)
     = Inr (Some \<lparr>c_namespace = JStr ''shop-0a0b0c0d'', c_ingress = JStr ''shop''\<rparr>) \<and>
   create_store (sample_world ex_listing loads_routes)
       (sample_draws ''1a2b3c4d-aaaa-4bbb-8ccc-0123456789ab'') acme_request empty_state =
     (Inl (HTTPException 409
        (''ingress host conflict: host '' @ [CHR 0x27] @ ''acme.example.com'' @ [CHR 0x27]
           @ '' already used in shop-0a0b0c0d/shop'')),
      \<lparr>stores = [''1a2b3c4d'' \<mapsto>
         \<lparr>rec_id = ''1a2b3c4d'', rec_store_name = ''acme'',
          rec_namespace = ''acme-1a2b3c4d'', rec_domain = ''acme.example.com'',
          rec_status = ''Failed'', rec_helm_release = ''acme-1a2b3c4d'',
          rec_environment = ''local'', rec_created_at = ''2024-05-01T10:00:00+00:00''\<rparr>],
       calls = [call [''kubectl'', ''get'', ''ingress'', ''-A'', ''-o'', ''json'']]\<rparr>)"
proof -
  let ?w = "sample_world ex_listing loads_routes"
  let ?c = "\<lparr>c_namespace = JStr ''shop-0a0b0c0d'', c_ingress = JStr ''shop''\<rparr>"
  have dom: "strip (req_domain acme_request) = ''acme.example.com''"
    by (simp add: sample_defs text_eval)
  have h1: "valid_request acme_request"
    by (simp add: valid_request_def sample_defs text_eval)
  have h2: "fst (ingress_host_exists ?w ''acme.example.com'' empty_state) = Inr (Some ?c)"
    by (simp add: run_eval sample_defs ex_listing_def loads_routes_def sample_routes_def
          listing_json_def route_json_def rule_json_def cmd_defs text_eval)
  have h2': "fst (ingress_host_exists ?w (strip (req_domain acme_request)) empty_state)
               = Inr (Some ?c)"
    using h2 by (simp only: dom)
  show ?thesis
    using h1 h2
      provision_conflict_creates_nothing [OF h1 h2',
        of "sample_draws ''1a2b3c4d-aaaa-4bbb-8ccc-0123456789ab''"]
    by (simp add: dom conflict_detail_def py_format_def new_record_def namespace_of_def
          inv_get_ingress_def cmd_defs sample_defs text_eval)
qed

text \<open>
  Claim C1. When the conflict check passes, the namespace and the secret steps are
  accepted and the chart installation returns non-zero, the provision call issues, after
  the installation, exactly the release removal and then the namespace removal (one
  invocation each, for any answer of the executor to either), stores the record as
  Failed and returns the 500 "helm install failed" error.
\<close>

theorem provision_install_failure_rollback:
  assumes "valid_request req"
    and "fst (ingress_host_exists w (strip (req_domain req)) s) = Inr None"
    and "captured (ex w (calls s @ [inv_get_ingress]) (inv_create_namespace req d))
           = (rc1, out1, err1)"
    and "\<not> creation_failed rc1 out1 err1"
    and "captured (ex w (calls s @ [inv_get_ingress, inv_create_namespace req d])
           (inv_create_secret req d)) = (rc2, out2, err2)"
    and "\<not> creation_failed rc2 out2 err2"
    and "captured (ex w (calls s @ [inv_get_ingress, inv_create_namespace req d,
           inv_create_secret req d]) (inv_helm_install w req d)) = (rc, out, err)"
    and "rc \<noteq> 0"
  shows "create_store w d req s =
     (Inl (HTTPException 500 (''helm install failed: '' @ take 1000 (py_or err out))),
      \<lparr>stores = (stores s)(take 8 (uuid4 d) \<mapsto> new_record req d ''Failed''),
       calls = calls s @ [inv_get_ingress, inv_create_namespace req d,
                 inv_create_secret req d, inv_helm_install w req d,
                 inv_helm_uninstall req d, inv_delete_namespace req d]\<rparr>)"
  using assms by (rule create_store_install_failed)

theorem provision_install_failure_rollback_witness:
  "captured (ex_install_fails [] (call [''helm'', ''uninstall'', ''acme-1a2b3c4d'', ''-n'',
       ''acme-1a2b3c4d''])) = (1, [], ''Error: uninstall: Release not loaded'') \<and>
   captured (ex_install_fails [] (call [''kubectl'', ''delete'', ''namespace'',
       ''acme-1a2b3c4d''])) = (254, [], ''Command timed out after 600 seconds'') \<and>
   create_store (sample_world ex_install_fails no_json)
       (sample_draws ''1a2b3c4d-aaaa-4bbb-8ccc-0123456789ab'') acme_request empty_state =
     (Inl (HTTPException 500 ''helm install failed: Error: timed out waiting for the condition''),
      \<lparr>stores = [''1a2b3c4d'' \<mapsto>
         \<lparr>rec_id = ''1a2b3c4d'', rec_store_name = ''acme'',
          rec_namespace = ''acme-1a2b3c4d'', rec_domain = ''acme.example.com'',
          rec_status = ''Failed'', rec_helm_release = ''acme-1a2b3c4d'',
          rec_environment = ''local'', rec_created_at = ''2024-05-01T10:00:00+00:00''\<rparr>],
       calls =
         [call [''kubectl'', ''get'', ''ingress'', ''-A'', ''-o'', ''json''],
          call [''kubectl'', ''create'', ''namespace'', ''acme-1a2b3c4d''],
          call [''kubectl'', ''create'', ''secret'', ''generic'', ''acme-1a2b3c4d-db-secret'',
                ''--from-literal=root-password=r00t-secret'',
                ''--from-literal=user-password=us3r-secret'',
                ''--namespace=acme-1a2b3c4d''],
          call_in ''/srv/platform''
               [''helm'', ''install'', ''acme-1a2b3c4d'', ''/srv/platform/helm/woocommerce'',
                ''--namespace'', ''acme-1a2b3c4d'',
                ''--values'', ''/srv/platform/values-local.yaml'',
                ''--set'', ''ingress.host=acme.example.com'',
                ''--set'', ''storeName=acme-1a2b3c4d'',
                ''--wait'', ''--timeout'', ''10m''],
          call [''helm'', ''uninstall'', ''acme-1a2b3c4d'', ''-n'', ''acme-1a2b3c4d''],
          call [''kubectl'', ''delete'', ''namespace'', ''acme-1a2b3c4d'']]\<rparr>)"
proof -
  let ?w = "sample_world ex_install_fails no_json"
  let ?d = "sample_draws ''1a2b3c4d-aaaa-4bbb-8ccc-0123456789ab''"
  have h1: "valid_request acme_request"
    by (simp add: valid_request_def sample_defs text_eval)
  have h2: "fst (ingress_host_exists ?w (strip (req_domain acme_request)) empty_state) = Inr None"
    by (simp add: run_eval sample_defs ex_install_fails_def cmd_defs text_eval)
  have h3: "captured (ex ?w (calls empty_state @ [inv_get_ingress])
              (inv_create_namespace acme_request ?d)) = (0, [], [])"
    by (simp add: captured_def sample_defs ex_install_fails_def inv_defs cmd_defs text_eval)
  have h4: "\<not> creation_failed 0 [] []"
    by (simp add: creation_failed_def)
  have h5: "captured (ex ?w (calls empty_state @ [inv_get_ingress,
              inv_create_namespace acme_request ?d]) (inv_create_secret acme_request ?d))
              = (0, [], [])"
    by (simp add: captured_def sample_defs ex_install_fails_def inv_defs cmd_defs text_eval)
  have h6: "captured (ex ?w (calls empty_state @ [inv_get_ingress,
              inv_create_namespace acme_request ?d, inv_create_secret acme_request ?d])
              (inv_helm_install ?w acme_request ?d))
              = (1, [], ''Error: timed out waiting for the condition'')"
    by (simp add: captured_def sample_defs ex_install_fails_def inv_defs cmd_defs text_eval)
  have h7: "(1::int) \<noteq> 0"
    by simp
  have c1: "captured (ex_install_fails [] (call [''helm'', ''uninstall'', ''acme-1a2b3c4d'',
              ''-n'', ''acme-1a2b3c4d''])) = (1, [], ''Error: uninstall: Release not loaded'')"
    by (simp add: captured_def ex_install_fails_def cmd_defs text_eval)
  have c2: "captured (ex_install_fails [] (call [''kubectl'', ''delete'', ''namespace'',
              ''acme-1a2b3c4d''])) = (254, [], ''Command timed out after 600 seconds'')"
    by (simp add: captured_def ex_install_fails_def cmd_defs text_eval)
  show ?thesis
    using c1 c2 provision_install_failure_rollback [OF h1 h2 h3 h4 h5 h4 h6 h7]
    by (simp add: inv_defs cmd_defs sample_defs text_eval)
qed

section \<open>Text facts\<close>

lemma py_isspace_lower [simp]: "py_isspace (py_lower_char c) = py_isspace c"
proof -
  have "of_char c < (256::nat)" by simp
  then show ?thesis
    by (auto simp: py_isspace_def py_lower_char_def Let_def)
qed

lemma lower_strip_commute: "lower (strip s) = strip (lower s)"
  by (simp add: lower_def strip_def rev_map dropWhile_map comp_def)


section \<open>Every outcome of a valid provision call\<close>

lemma create_store_shape:
  assumes "valid_request req"
  shows "\<exists>st tr. snd (create_store w d req s) =
            \<lparr>stores = (stores s)(take 8 (uuid4 d) \<mapsto> new_record req d st),
             calls = calls s @ tr\<rparr> \<and>
          (tr = [inv_get_ingress] \<or>
           tr = [inv_get_ingress, inv_create_namespace req d] \<or>
           tr = [inv_get_ingress, inv_create_namespace req d, inv_create_secret req d] \<or>
           tr = [inv_get_ingress, inv_create_namespace req d, inv_create_secret req d,
                 inv_helm_install w req d] \<or>
           tr = [inv_get_ingress, inv_create_namespace req d, inv_create_secret req d,
                 inv_helm_install w req d, inv_helm_uninstall req d,
                 inv_delete_namespace req d]) \<and>
          (\<forall>resp. fst (create_store w d req s) = Inr resp \<longrightarrow>
                  resp = to_response (new_record req d ''Ready''))"
proof (cases "fst (ingress_host_exists w (strip (req_domain req)) s)")
  case (Inl e)
  show ?thesis
    by (simp add: create_store_uncaught [OF assms Inl]) blast
next
  case (Inr v)
  show ?thesis
  proof (cases v)
    case (Some c)
    with Inr have v: "fst (ingress_host_exists w (strip (req_domain req)) s) = Inr (Some c)"
      by simp
    show ?thesis
      by (simp add: create_store_conflict [OF assms v]) blast
  next
    case None
    with Inr have v: "fst (ingress_host_exists w (strip (req_domain req)) s) = Inr None"
      by simp
    obtain rc1 out1 err1 where
      r1: "captured (ex w (calls s @ [inv_get_ingress]) (inv_create_namespace req d))
             = (rc1, out1, err1)"
      by (cases "captured (ex w (calls s @ [inv_get_ingress]) (inv_create_namespace req d))")
    show ?thesis
    proof (cases "creation_failed rc1 out1 err1")
      case True
      show ?thesis
        by (simp add: create_store_namespace_failed [OF assms v r1 True]) blast
    next
      case f1: False
      obtain rc2 out2 err2 where
        r2: "captured (ex w (calls s @ [inv_get_ingress, inv_create_namespace req d])
               (inv_create_secret req d)) = (rc2, out2, err2)"
        by (cases "captured (ex w (calls s @ [inv_get_ingress, inv_create_namespace req d])
               (inv_create_secret req d))")
      show ?thesis
      proof (cases "creation_failed rc2 out2 err2")
        case True
        show ?thesis
          by (simp add: create_store_secret_failed [OF assms v r1 f1 r2 True]) blast
      next
        case f2: False
        obtain rc out err where
          r3: "captured (ex w (calls s @ [inv_get_ingress, inv_create_namespace req d,
                 inv_create_secret req d]) (inv_helm_install w req d)) = (rc, out, err)"
          by (cases "captured (ex w (calls s @ [inv_get_ingress, inv_create_namespace req d,
                 inv_create_secret req d]) (inv_helm_install w req d))")
        show ?thesis
        proof (cases "rc = 0")
          case True
          with r3 have r3': "captured (ex w (calls s @ [inv_get_ingress,
                 inv_create_namespace req d, inv_create_secret req d])
                 (inv_helm_install w req d)) = (0, out, err)"
            by simp
          show ?thesis
            by (simp add: create_store_ready [OF assms v r1 f1 r2 f2 r3']) blast
        next
          case False
          show ?thesis
            by (simp add: create_store_install_failed [OF assms v r1 f1 r2 f2 r3 False]) blast
        qed
      qed
    qed
  qed
qed

lemma create_store_other_keys:
  assumes "k \<noteq> take 8 (uuid4 d)"
  shows "stores (snd (create_store w d req s)) k = stores s k"
proof (cases "valid_request req")
  case True
  from create_store_shape [OF True, of w d s] obtain st tr where
    "snd (create_store w d req s) =
       \<lparr>stores = (stores s)(take 8 (uuid4 d) \<mapsto> new_record req d st), calls = calls s @ tr\<rparr>"
    by blast
  with assms show ?thesis by simp
next
  case False
  then show ?thesis by (simp add: create_store_invalid)
qed


section \<open>A sample run in which every command succeeds\<close>

lemma acme_record:
  "new_record acme_request (sample_draws (''1a2b3c4d'' @ rest)) st =
     \<lparr>rec_id = ''1a2b3c4d'', rec_store_name = ''acme'',
      rec_namespace = ''acme-1a2b3c4d'', rec_domain = ''acme.example.com'',
      rec_status = st, rec_helm_release = ''acme-1a2b3c4d'',
      rec_environment = ''local'', rec_created_at = ''2024-05-01T10:00:00+00:00''\<rparr>"
  by (simp add: new_record_def namespace_of_def sample_defs text_eval)

lemma quiet_run:
  assumes "valid_request req"
  shows "create_store (sample_world ex_quiet no_json) d req s =
     (Inr (to_response (new_record req d ''Ready'')),
      \<lparr>stores = (stores s)(take 8 (uuid4 d) \<mapsto> new_record req d ''Ready''),
       calls = calls s @ [inv_get_ingress, inv_create_namespace req d,
                 inv_create_secret req d,
                 inv_helm_install (sample_world ex_quiet no_json) req d]\<rparr>)"
proof -
  let ?w = "sample_world ex_quiet no_json"
  have v: "fst (ingress_host_exists ?w (strip (req_domain req)) s) = Inr None"
    by (simp add: run_eval sample_world_def ex_quiet_def text_eval)
  have r: "\<And>tr i. captured (ex ?w tr i) = (0, [], [])"
    by (simp add: captured_def sample_world_def ex_quiet_def text_eval)
  have f: "\<not> creation_failed 0 [] []"
    by (simp add: creation_failed_def)
  show ?thesis
    by (rule create_store_ready [OF assms v r f r f r])
qed

lemma acme_valid: "valid_request acme_request"
  by (simp add: valid_request_def sample_defs text_eval)

text \<open>
  Claim C4. For every valid provision request the stored record has a namespace and a
  release name that are equal, both being the store name (stripped and lowercased, in
  either order), a hyphen and the generated id; a success response carries the same names.
\<close>

theorem derived_names_equal:
  assumes "valid_request req"
  shows "\<exists>m. stores (snd (create_store w d req s)) (take 8 (uuid4 d)) = Some m \<and>
           rec_id m = take 8 (uuid4 d) \<and>
           rec_namespace m = rec_helm_release m \<and>
           rec_namespace m = lower (strip (req_store_name req)) @ ''-'' @ rec_id m \<and>
           rec_namespace m = strip (lower (req_store_name req)) @ ''-'' @ rec_id m \<and>
           (\<forall>resp. fst (create_store w d req s) = Inr resp \<longrightarrow>
              resp_id resp = rec_id m \<and> resp_namespace resp = rec_namespace m \<and>
              resp_helm_release resp = rec_namespace m)"
proof -
  from create_store_shape [OF assms, of w d s] obtain st tr where
    st: "snd (create_store w d req s) =
           \<lparr>stores = (stores s)(take 8 (uuid4 d) \<mapsto> new_record req d st),
            calls = calls s @ tr\<rparr>"
    and resp: "\<forall>resp. fst (create_store w d req s) = Inr resp \<longrightarrow>
                 resp = to_response (new_record req d ''Ready'')"
    by blast
  show ?thesis
    using resp
    by (auto simp: st new_record_def namespace_of_def to_response_def
          lower_strip_commute [symmetric])
qed

theorem derived_names_equal_witness:
  "valid_request acme_request \<and>
   map_option rec_namespace
     (stores (snd (create_store (sample_world ex_quiet no_json)
        (sample_draws ''1a2b3c4d-aaaa-4bbb-8ccc-0123456789ab'') acme_request empty_state))
        ''1a2b3c4d'') = Some ''acme-1a2b3c4d'' \<and>
   map_option rec_helm_release
     (stores (snd (create_store (sample_world ex_quiet no_json)
        (sample_draws ''1a2b3c4d-aaaa-4bbb-8ccc-0123456789ab'') acme_request empty_state))
        ''1a2b3c4d'') = Some ''acme-1a2b3c4d''"
proof -
  let ?d = "sample_draws ''1a2b3c4d-aaaa-4bbb-8ccc-0123456789ab''"
  have i: "take 8 (uuid4 ?d) = ''1a2b3c4d''"
    by (simp add: sample_draws_def)
  have n: "lower (strip (req_store_name acme_request)) = ''acme''"
    by (simp add: sample_defs text_eval)
  show ?thesis
    using acme_valid
      derived_names_equal [OF acme_valid, of "sample_world ex_quiet no_json" ?d empty_state]
    by (auto simp: i n)
qed

text \<open>
  Claim C10. For every valid provision request the environment is stripped and lowercased
  before anything else: that form is what the record stores, and every chart installation
  the call invokes passes the local values file when that form is "local" and the
  production values file for any other value.
\<close>

theorem environment_selects_profile:
  assumes "valid_request req"
  shows "(\<exists>m. stores (snd (create_store w d req s)) (take 8 (uuid4 d)) = Some m \<and>
              rec_environment m = lower (strip (req_environment req))) \<and>
         (\<forall>i \<in> set (drop (length (calls s)) (calls (snd (create_store w d req s)))).
            take 2 (cmd i) = [''helm'', ''install''] \<longrightarrow>
              cmd i ! 6 = ''--values'' \<and>
              cmd i ! 7 = (if lower (strip (req_environment req)) = ''local''
                           then VALUES_LOCAL w else VALUES_PROD w))"
proof -
  from create_store_shape [OF assms, of w d s] obtain st tr where
    st: "snd (create_store w d req s) =
           \<lparr>stores = (stores s)(take 8 (uuid4 d) \<mapsto> new_record req d st),
            calls = calls s @ tr\<rparr>"
    and tr: "tr = [inv_get_ingress] \<or>
           tr = [inv_get_ingress, inv_create_namespace req d] \<or>
           tr = [inv_get_ingress, inv_create_namespace req d, inv_create_secret req d] \<or>
           tr = [inv_get_ingress, inv_create_namespace req d, inv_create_secret req d,
                 inv_helm_install w req d] \<or>
           tr = [inv_get_ingress, inv_create_namespace req d, inv_create_secret req d,
                 inv_helm_install w req d, inv_helm_uninstall req d,
                 inv_delete_namespace req d]"
    by blast
  have a: "take 2 (cmd inv_get_ingress) \<noteq> [''helm'', ''install'']"
    "take 2 (cmd (inv_create_namespace req d)) \<noteq> [''helm'', ''install'']"
    "take 2 (cmd (inv_create_secret req d)) \<noteq> [''helm'', ''install'']"
    "take 2 (cmd (inv_helm_uninstall req d)) \<noteq> [''helm'', ''install'']"
    "take 2 (cmd (inv_delete_namespace req d)) \<noteq> [''helm'', ''install'']"
    by (simp_all add: inv_defs cmd_defs)
  have b: "cmd (inv_helm_install w req d) ! 6 = ''--values''"
    "cmd (inv_helm_install w req d) ! 7 =
       (if lower (strip (req_environment req)) = ''local''
        then VALUES_LOCAL w else VALUES_PROD w)"
    by (simp_all add: inv_helm_install_def cmd_defs split del: if_split)
  have "\<forall>i \<in> set tr. take 2 (cmd i) = [''helm'', ''install''] \<longrightarrow> i = inv_helm_install w req d"
    using tr a by auto
  then show ?thesis
    using b by (auto simp: st new_record_def)
qed

theorem environment_selects_profile_witness:
  "valid_request acme_request \<and>
   req_environment acme_request = '' Local '' \<and>
   map_option rec_environment
     (stores (snd (create_store (sample_world ex_quiet no_json)
        (sample_draws ''1a2b3c4d-aaaa-4bbb-8ccc-0123456789ab'') acme_request empty_state))
        ''1a2b3c4d'') = Some ''local'' \<and>
   take 2 (cmd (calls (snd (create_store (sample_world ex_quiet no_json)
        (sample_draws ''1a2b3c4d-aaaa-4bbb-8ccc-0123456789ab'') acme_request empty_state))
        ! 3)) = [''helm'', ''install''] \<and>
   cmd (calls (snd (create_store (sample_world ex_quiet no_json)
        (sample_draws ''1a2b3c4d-aaaa-4bbb-8ccc-0123456789ab'') acme_request empty_state))
        ! 3) ! 7 = ''/srv/platform/values-local.yaml''"
proof -
  let ?w = "sample_world ex_quiet no_json"
  let ?d = "sample_draws ''1a2b3c4d-aaaa-4bbb-8ccc-0123456789ab''"
  let ?s = "snd (create_store ?w ?d acme_request empty_state)"
  have i: "take 8 (uuid4 ?d) = ''1a2b3c4d''"
    by (simp add: sample_draws_def)
  have e: "lower (strip (req_environment acme_request)) = ''local''"
    "req_environment acme_request = '' Local ''"
    by (simp_all add: sample_defs text_eval)
  have c: "calls ?s = [inv_get_ingress, inv_create_namespace acme_request ?d,
             inv_create_secret acme_request ?d, inv_helm_install ?w acme_request ?d]"
    by (simp add: quiet_run [OF acme_valid] empty_state_def)
  have h: "take 2 (cmd (calls ?s ! 3)) = [''helm'', ''install'']"
    unfolding c by (simp add: inv_helm_install_def cmd_defs)
  have m: "calls ?s ! 3 \<in> set (drop (length (calls empty_state)) (calls ?s))"
    unfolding c by (simp add: empty_state_def)
  have v: "VALUES_LOCAL ?w = ''/srv/platform/values-local.yaml''"
    by (simp add: sample_world_def)
  from environment_selects_profile [OF acme_valid, of ?w ?d empty_state]
  have "(\<exists>m. stores ?s (take 8 (uuid4 ?d)) = Some m \<and>
              rec_environment m = lower (strip (req_environment acme_request)))"
    and "cmd (calls ?s ! 3) ! 7 =
           (if lower (strip (req_environment acme_request)) = ''local''
            then VALUES_LOCAL ?w else VALUES_PROD ?w)"
    using m h by blast+
  then have "\<exists>m. stores ?s ''1a2b3c4d'' = Some m \<and> rec_environment m = ''local''"
    and "cmd (calls ?s ! 3) ! 7 = ''/srv/platform/values-local.yaml''"
    unfolding e(1) i v by simp_all
  then show ?thesis
    using acme_valid h e(2) by auto
qed

section \<open>Substring search\<close>

lemma take_eq_iff_append: "take (length pat) s = pat \<longleftrightarrow> (\<exists>ss. s = pat @ ss)"
proof
  assume "take (length pat) s = pat"
  then have "s = pat @ drop (length pat) s"
    by (metis append_take_drop_id)
  then show "\<exists>ss. s = pat @ ss" ..
next
  assume "\<exists>ss. s = pat @ ss"
  then show "take (length pat) s = pat" by auto
qed

lemma py_in_iff: "py_in pat s \<longleftrightarrow> (\<exists>ps ss. s = ps @ pat @ ss)"
proof (induction s)
  case Nil
  show ?case by auto
next
  case (Cons c cs)
  have "(\<exists>ps ss. c # cs = ps @ pat @ ss) \<longleftrightarrow>
          (\<exists>ss. c # cs = pat @ ss) \<or> (\<exists>ps ss. cs = ps @ pat @ ss)"
  proof
    assume "\<exists>ps ss. c # cs = ps @ pat @ ss"
    then obtain ps ss where e: "c # cs = ps @ pat @ ss" by blast
    show "(\<exists>ss. c # cs = pat @ ss) \<or> (\<exists>ps ss. cs = ps @ pat @ ss)"
    proof (cases ps)
      case Nil
      with e show ?thesis by auto
    next
      case (Cons p ps')
      with e have "cs = ps' @ pat @ ss" by simp
      then show ?thesis by blast
    qed
  next
    assume "(\<exists>ss. c # cs = pat @ ss) \<or> (\<exists>ps ss. cs = ps @ pat @ ss)"
    then show "\<exists>ps ss. c # cs = ps @ pat @ ss"
    proof
      assume "\<exists>ss. c # cs = pat @ ss"
      then obtain ss where "c # cs = [] @ pat @ ss" by auto
      then show ?thesis by blast
    next
      assume "\<exists>ps ss. cs = ps @ pat @ ss"
      then obtain ps ss where "c # cs = (c # ps) @ pat @ ss" by auto
      then show ?thesis by blast
    qed
  qed
  then show ?case
    using Cons.IH take_eq_iff_append [of pat "c # cs"] by simp
qed


lemma map_split3:
  assumes "map f s = ps @ pat @ ss"
  shows "\<exists>a t b. s = a @ t @ b \<and> map f t = pat"
proof -
  let ?a = "take (length ps) s"
  let ?t = "take (length pat) (drop (length ps) s)"
  let ?b = "drop (length pat) (drop (length ps) s)"
  have "?t @ ?b = drop (length ps) s"
    by (rule append_take_drop_id)
  then have "?a @ ?t @ ?b = s"
    by (simp only: append_take_drop_id)
  then have "s = ?a @ ?t @ ?b" by (rule sym)
  moreover have "map f ?t = take (length pat) (drop (length ps) (map f s))"
    by (simp add: take_map drop_map)
  then have "map f ?t = pat"
    by (simp add: assms)
  ultimately show ?thesis by blast
qed

lemma py_in_lower_iff:
  "py_in pat (lower s) \<longleftrightarrow> (\<exists>ps t ss. s = ps @ t @ ss \<and> lower t = pat)"
proof
  assume "py_in pat (lower s)"
  then obtain ps ss where "map py_lower_char s = ps @ pat @ ss"
    unfolding py_in_iff lower_def by blast
  from map_split3 [OF this] show "\<exists>ps t ss. s = ps @ t @ ss \<and> lower t = pat"
    unfolding lower_def .
next
  assume "\<exists>ps t ss. s = ps @ t @ ss \<and> lower t = pat"
  then obtain ps t ss where "s = ps @ t @ ss" and "lower t = pat" by blast
  then have "lower s = lower ps @ pat @ lower ss"
    by (simp add: lower_def)
  then show "py_in pat (lower s)"
    unfolding py_in_iff by blast
qed

lemma py_in_set:
  assumes "py_in pat s"
  shows "set pat \<subseteq> set s"
proof -
  from assms obtain ps ss where "s = ps @ pat @ ss"
    unfolding py_in_iff by blast
  then show ?thesis by auto
qed

lemma strip_replicate: "\<not> py_isspace c \<Longrightarrow> strip (replicate n c) = replicate n c"
  by (simp add: strip_def)

lemma no_match_in_xs: "\<not> py_in ''already exists'' (lower (replicate n CHR ''x''))"
proof
  assume "py_in ''already exists'' (lower (replicate n CHR ''x''))"
  from py_in_set [OF this] show False
    by (auto simp: lower_def py_lower_char_def char_of_def bit_Suc_0_iff)
qed

section \<open>The idempotent-create test\<close>

text \<open>
  Claim C3, as amended. After a non-zero exit of the namespace command or of the secret
  command, the step is accepted exactly when "already exists" occurs, in any letter case,
  in the stripped error text of that command, or in its stripped output when the error
  text is empty. An accepted namespace step is followed by the secret command and an
  accepted secret step by the chart installation; a step that is not accepted stores the
  record as Failed and returns the 500 error of that step.
\<close>

theorem create_step_acceptance:
  assumes "valid_request req"
    and "fst (ingress_host_exists w (strip (req_domain req)) s) = Inr None"
    and "captured (ex w (calls s @ [inv_get_ingress]) (inv_create_namespace req d))
           = (rc1, out1, err1)"
    and "captured (ex w (calls s @ [inv_get_ingress, inv_create_namespace req d])
           (inv_create_secret req d)) = (rc2, out2, err2)"
  shows
    "(if rc1 \<noteq> 0 \<and>
         \<not> (\<exists>ps t ss. (if err1 \<noteq> [] then err1 else out1) = ps @ t @ ss \<and>
                lower t = ''already exists'')
      then create_store w d req s =
             (Inl (HTTPException 500
                (''Namespace creation failed: '' @ (if err1 \<noteq> [] then err1 else out1))),
              \<lparr>stores = (stores s)(take 8 (uuid4 d) \<mapsto> new_record req d ''Failed''),
               calls = calls s @ [inv_get_ingress, inv_create_namespace req d]\<rparr>)
      else if rc2 \<noteq> 0 \<and>
         \<not> (\<exists>ps t ss. (if err2 \<noteq> [] then err2 else out2) = ps @ t @ ss \<and>
                lower t = ''already exists'')
      then create_store w d req s =
             (Inl (HTTPException 500
                (''Secret creation failed: '' @ (if err2 \<noteq> [] then err2 else out2))),
              \<lparr>stores = (stores s)(take 8 (uuid4 d) \<mapsto> new_record req d ''Failed''),
               calls = calls s @ [inv_get_ingress, inv_create_namespace req d,
                         inv_create_secret req d]\<rparr>)
      else take (length (calls s) + 4) (calls (snd (create_store w d req s))) =
             calls s @ [inv_get_ingress, inv_create_namespace req d,
                        inv_create_secret req d, inv_helm_install w req d])"
proof -
  have cf: "\<And>rc out err. creation_failed rc out err \<longleftrightarrow>
              rc \<noteq> 0 \<and> \<not> (\<exists>ps t ss. (if err \<noteq> [] then err else out) = ps @ t @ ss \<and>
                             lower t = ''already exists'')"
    unfolding creation_failed_def py_in_lower_iff py_or_def by (rule refl)
  show ?thesis
  proof (cases "creation_failed rc1 out1 err1")
    case True
    from True have c: "rc1 \<noteq> 0 \<and>
         \<not> (\<exists>ps t ss. (if err1 \<noteq> [] then err1 else out1) = ps @ t @ ss \<and>
                lower t = ''already exists'')"
      unfolding cf .
    from create_store_namespace_failed [OF assms(1,2,3) True]
    show ?thesis
      unfolding py_or_def if_P [OF c] .
  next
    case f1: False
    show ?thesis
    proof (cases "creation_failed rc2 out2 err2")
      case True
      from f1 have c1: "\<not> (rc1 \<noteq> 0 \<and>
         \<not> (\<exists>ps t ss. (if err1 \<noteq> [] then err1 else out1) = ps @ t @ ss \<and>
                lower t = ''already exists''))"
        unfolding cf .
      from True have c2: "rc2 \<noteq> 0 \<and>
         \<not> (\<exists>ps t ss. (if err2 \<noteq> [] then err2 else out2) = ps @ t @ ss \<and>
                lower t = ''already exists'')"
        unfolding cf .
      from create_store_secret_failed [OF assms(1,2,3) f1 assms(4) True]
      show ?thesis
        unfolding py_or_def if_not_P [OF c1] if_P [OF c2] .
    next
      case f2: False
      obtain rc out err where
        r3: "captured (ex w (calls s @ [inv_get_ingress, inv_create_namespace req d,
               inv_create_secret req d]) (inv_helm_install w req d)) = (rc, out, err)"
        by (cases "captured (ex w (calls s @ [inv_get_ingress, inv_create_namespace req d,
               inv_create_secret req d]) (inv_helm_install w req d))")
      have t: "take (length (calls s) + 4) (calls (snd (create_store w d req s))) =
             calls s @ [inv_get_ingress, inv_create_namespace req d,
                        inv_create_secret req d, inv_helm_install w req d]"
      proof (cases "rc = 0")
        case True
        with r3 have r3': "captured (ex w (calls s @ [inv_get_ingress,
               inv_create_namespace req d, inv_create_secret req d])
               (inv_helm_install w req d)) = (0, out, err)"
          by simp
        show ?thesis
          by (simp add: create_store_ready [OF assms(1,2,3) f1 assms(4) f2 r3'])
      next
        case False
        show ?thesis
          by (simp add: create_store_install_failed [OF assms(1,2,3) f1 assms(4) f2 r3 False])
      qed
      from f1 have c1: "\<not> (rc1 \<noteq> 0 \<and>
         \<not> (\<exists>ps t ss. (if err1 \<noteq> [] then err1 else out1) = ps @ t @ ss \<and>
                lower t = ''already exists''))"
        unfolding cf .
      from f2 have c2: "\<not> (rc2 \<noteq> 0 \<and>
         \<not> (\<exists>ps t ss. (if err2 \<noteq> [] then err2 else out2) = ps @ t @ ss \<and>
                lower t = ''already exists''))"
        unfolding cf .
      from t show ?thesis
        unfolding if_not_P [OF c1] if_not_P [OF c2] .
    qed
  qed
qed


theorem create_step_acceptance_witness:
  "captured (ex_namespace_exists [inv_get_ingress]
      (call [''kubectl'', ''create'', ''namespace'', ''acme-1a2b3c4d'']))
     = (1, [], ''Error from server (AlreadyExists): namespaces Already Exists'') \<and>
   create_store (sample_world ex_namespace_exists no_json)
       (sample_draws ''1a2b3c4d-aaaa-4bbb-8ccc-0123456789ab'') acme_request empty_state =
     (Inl (HTTPException 500 ''Secret creation failed: error: failed to create secret''),
      \<lparr>stores = [''1a2b3c4d'' \<mapsto>
         \<lparr>rec_id = ''1a2b3c4d'', rec_store_name = ''acme'',
          rec_namespace = ''acme-1a2b3c4d'', rec_domain = ''acme.example.com'',
          rec_status = ''Failed'', rec_helm_release = ''acme-1a2b3c4d'',
          rec_environment = ''local'', rec_created_at = ''2024-05-01T10:00:00+00:00''\<rparr>],
       calls =
         [call [''kubectl'', ''get'', ''ingress'', ''-A'', ''-o'', ''json''],
          call [''kubectl'', ''create'', ''namespace'', ''acme-1a2b3c4d''],
          call [''kubectl'', ''create'', ''secret'', ''generic'', ''acme-1a2b3c4d-db-secret'',
                ''--from-literal=root-password=r00t-secret'',
                ''--from-literal=user-password=us3r-secret'',
                ''--namespace=acme-1a2b3c4d'']]\<rparr>)"
proof -
  let ?w = "sample_world ex_namespace_exists no_json"
  let ?d = "sample_draws ''1a2b3c4d-aaaa-4bbb-8ccc-0123456789ab''"
  let ?e1 = "''Error from server (AlreadyExists): namespaces Already Exists''"
  let ?e2 = "''error: failed to create secret''"
  have h2: "fst (ingress_host_exists ?w (strip (req_domain acme_request)) empty_state) = Inr None"
    by (simp add: run_eval sample_defs ex_namespace_exists_def cmd_defs text_eval)
  have h3: "captured (ex ?w (calls empty_state @ [inv_get_ingress])
              (inv_create_namespace acme_request ?d)) = (1, [], ?e1)"
    by (simp add: captured_def sample_defs ex_namespace_exists_def inv_defs cmd_defs text_eval)
  have h4: "captured (ex ?w (calls empty_state @ [inv_get_ingress,
              inv_create_namespace acme_request ?d]) (inv_create_secret acme_request ?d))
              = (1, ''partial output'', ?e2)"
    by (simp add: captured_def sample_defs ex_namespace_exists_def inv_defs cmd_defs text_eval)
  have "py_in ''already exists'' (lower ?e1)"
    by (simp add: text_eval)
  then have c1: "\<not> ((1::int) \<noteq> 0 \<and>
         \<not> (\<exists>ps t ss. (if ?e1 \<noteq> [] then ?e1 else []) = ps @ t @ ss \<and>
                lower t = ''already exists''))"
    unfolding py_in_lower_iff by simp
  have "\<not> py_in ''already exists'' (lower ?e2)"
    by (simp add: text_eval)
  then have c2: "(1::int) \<noteq> 0 \<and>
         \<not> (\<exists>ps t ss. (if ?e2 \<noteq> [] then ?e2 else ''partial output'') = ps @ t @ ss \<and>
                lower t = ''already exists'')"
    unfolding py_in_lower_iff by simp
  have k: "captured (ex_namespace_exists [inv_get_ingress]
      (call [''kubectl'', ''create'', ''namespace'', ''acme-1a2b3c4d''])) = (1, [], ?e1)"
    by (simp add: captured_def ex_namespace_exists_def cmd_defs text_eval)
  show ?thesis
    using k create_step_acceptance [OF acme_valid h2 h3 h4,
        unfolded if_not_P [OF c1] if_P [OF c2]]
    by (simp add: inv_defs cmd_defs sample_defs text_eval)
qed

theorem create_step_combined_output_counterexample:
  "captured (ex_split_streams [inv_get_ingress]
      (call [''kubectl'', ''create'', ''namespace'', ''acme-1a2b3c4d'']))
     = (1, ''namespace already exists'', ''warning: deprecated flag'') \<and>
   py_in ''already exists''
     (lower (''namespace already exists'' @ ''warning: deprecated flag'')) \<and>
   create_store (sample_world ex_split_streams no_json)
       (sample_draws ''1a2b3c4d-aaaa-4bbb-8ccc-0123456789ab'') acme_request empty_state =
     (Inl (HTTPException 500 ''Namespace creation failed: warning: deprecated flag''),
      \<lparr>stores = [''1a2b3c4d'' \<mapsto>
         \<lparr>rec_id = ''1a2b3c4d'', rec_store_name = ''acme'',
          rec_namespace = ''acme-1a2b3c4d'', rec_domain = ''acme.example.com'',
          rec_status = ''Failed'', rec_helm_release = ''acme-1a2b3c4d'',
          rec_environment = ''local'', rec_created_at = ''2024-05-01T10:00:00+00:00''\<rparr>],
       calls =
         [call [''kubectl'', ''get'', ''ingress'', ''-A'', ''-o'', ''json''],
          call [''kubectl'', ''create'', ''namespace'', ''acme-1a2b3c4d'']]\<rparr>)"
proof -
  let ?w = "sample_world ex_split_streams no_json"
  let ?d = "sample_draws ''1a2b3c4d-aaaa-4bbb-8ccc-0123456789ab''"
  have h2: "fst (ingress_host_exists ?w (strip (req_domain acme_request)) empty_state) = Inr None"
    by (simp add: run_eval sample_defs ex_split_streams_def cmd_defs text_eval)
  have h3: "captured (ex ?w (calls empty_state @ [inv_get_ingress])
              (inv_create_namespace acme_request ?d))
              = (1, ''namespace already exists'', ''warning: deprecated flag'')"
    by (simp add: captured_def sample_defs ex_split_streams_def inv_defs cmd_defs text_eval)
  have h4: "creation_failed 1 ''namespace already exists'' ''warning: deprecated flag''"
    by (simp add: creation_failed_def text_eval)
  have k: "captured (ex_split_streams [inv_get_ingress]
      (call [''kubectl'', ''create'', ''namespace'', ''acme-1a2b3c4d'']))
     = (1, ''namespace already exists'', ''warning: deprecated flag'')"
    by (simp add: captured_def ex_split_streams_def cmd_defs text_eval)
  have p: "py_in ''already exists''
     (lower (''namespace already exists'' @ ''warning: deprecated flag''))"
    by (simp add: text_eval)
  show ?thesis
    using k p create_store_namespace_failed [OF acme_valid h2 h3 h4]
    by (simp add: inv_defs cmd_defs sample_defs text_eval)
qed

section \<open>Length of the echoed diagnostics\<close>

text \<open>
  Claim C8 at a failing input: the namespace command exits with code 1 and two thousand
  characters of error text. The detail of the 500 error echoes all of them after its
  27-character prefix; it is not cut to 1000 characters as the detail of an installation
  failure is.
\<close>

theorem namespace_failure_detail_not_truncated:
  "create_store (sample_world ex_long_error no_json)
       (sample_draws ''1a2b3c4d-aaaa-4bbb-8ccc-0123456789ab'') acme_request empty_state =
     (Inl (HTTPException 500 (''Namespace creation failed: '' @ replicate 2000 CHR ''x'')),
      \<lparr>stores = [''1a2b3c4d'' \<mapsto>
         \<lparr>rec_id = ''1a2b3c4d'', rec_store_name = ''acme'',
          rec_namespace = ''acme-1a2b3c4d'', rec_domain = ''acme.example.com'',
          rec_status = ''Failed'', rec_helm_release = ''acme-1a2b3c4d'',
          rec_environment = ''local'', rec_created_at = ''2024-05-01T10:00:00+00:00''\<rparr>],
       calls =
         [call [''kubectl'', ''get'', ''ingress'', ''-A'', ''-o'', ''json''],
          call [''kubectl'', ''create'', ''namespace'', ''acme-1a2b3c4d'']]\<rparr>) \<and>
   length (''Namespace creation failed: '' @ replicate 2000 CHR ''x'') = 2027"
proof -
  let ?w = "sample_world ex_long_error no_json"
  let ?d = "sample_draws ''1a2b3c4d-aaaa-4bbb-8ccc-0123456789ab''"
  have x: "\<not> py_isspace CHR ''x''"
    by (simp add: py_isspace_def)
  have h2: "fst (ingress_host_exists ?w (strip (req_domain acme_request)) empty_state) = Inr None"
    by (simp add: run_eval sample_defs ex_long_error_def cmd_defs text_eval)
  have h3: "captured (ex ?w (calls empty_state @ [inv_get_ingress])
              (inv_create_namespace acme_request ?d)) = (1, [], replicate 2000 CHR ''x'')"
    by (simp add: captured_def sample_defs ex_long_error_def inv_defs cmd_defs
          strip_replicate [OF x])
       (simp add: text_eval)
  have h4: "creation_failed 1 [] (replicate 2000 CHR ''x'')"
    by (simp add: creation_failed_def py_or_def no_match_in_xs)
  show ?thesis
    using create_store_namespace_failed [OF acme_valid h2 h3 h4]
    by (simp add: inv_defs cmd_defs sample_defs py_or_def)
       (simp add: text_eval)
qed

section \<open>The conflict checker on a listing of the expected shape\<close>

lemma py_get_obj: "is_obj v \<Longrightarrow> py_get v k dflt = Inr (field v k dflt)"
  by (cases v) simp_all

lemma rule_loop_objs:
  assumes "list_all is_obj rules"
  shows "rule_loop rules host =
           Inr (list_ex (\<lambda>r. field r ''host'' JNull = JStr host) rules)"
  using assms
proof (induction rules)
  case Nil
  show ?case by simp
next
  case (Cons r rules)
  then have "is_obj r" and "list_all is_obj rules" by simp_all
  with Cons.IH show ?case
    by (simp add: py_get_obj)
qed

lemma rules_iter:
  assumes "wf_rules rl"
  shows "py_iter (if py_truthy rl then rl else JArr []) = Inr (rules_of rl)"
    and "list_all is_obj (rules_of rl)"
  using assms by (cases rl; simp)+

lemma item_step:
  assumes "wf_route item"
  shows "item_loop (item # items) host =
           (if has_host host item then Inr (Some (conflict_of item))
            else item_loop items host)"
proof -
  let ?md = "field item ''metadata'' (JObj [])"
  let ?sp = "field item ''spec'' (JObj [])"
  let ?rl = "field ?sp ''rules'' (JArr [])"
  from assms have o: "is_obj item" "is_obj ?md" "is_obj ?sp" and r: "wf_rules ?rl"
    by (simp_all add: wf_route_def)
  have g: "py_get item ''metadata'' (JObj []) = Inr ?md"
    "py_get ?md ''namespace'' (JStr []) = Inr (field ?md ''namespace'' (JStr []))"
    "py_get ?md ''name'' (JStr []) = Inr (field ?md ''name'' (JStr []))"
    "py_get item ''spec'' (JObj []) = Inr ?sp"
    "py_get ?sp ''rules'' (JArr []) = Inr ?rl"
    using o by (simp_all add: py_get_obj)
  have l: "rule_loop (rules_of ?rl) host =
             Inr (list_ex (\<lambda>r. field r ''host'' JNull = JStr host) (rules_of ?rl))"
    by (rule rule_loop_objs [OF rules_iter(2) [OF r]])
  show ?thesis
    by (simp add: g rules_iter(1) [OF r] l has_host_def route_rules_def conflict_of_def)
qed

lemma item_loop_wf:
  assumes "list_all wf_route items"
  shows "item_loop items host =
           Inr (map_option conflict_of (find (has_host host) items))"
  using assms
proof (induction items)
  case Nil
  show ?case by simp
next
  case (Cons item items)
  then have w: "wf_route item" and "list_all wf_route items" by simp_all
  with Cons.IH show ?case
    by (simp add: item_step [OF w] del: item_loop.simps)
qed

lemma ingress_host_exists_unavailable:
  assumes "captured (ex w (calls s) inv_get_ingress) = (rc, out, err)"
    and "rc \<noteq> 0 \<or> out = [] \<or> json_loads w out = None"
  shows "ingress_host_exists w host s = (Inr None, s\<lparr>calls := calls s @ [inv_get_ingress]\<rparr>)"
  using assms
  by (auto simp: ingress_host_exists_def run_command_default inv_get_ingress_def)

lemma ingress_host_exists_listing:
  assumes "captured (ex w (calls s) inv_get_ingress) = (0, out, err)"
    and "out \<noteq> []"
    and "json_loads w out = Some payload"
    and "wf_listing payload"
  shows "ingress_host_exists w host s =
           (Inr (map_option conflict_of (find (has_host host) (listing_items payload))),
            s\<lparr>calls := calls s @ [inv_get_ingress]\<rparr>)"
proof -
  let ?its = "field payload ''items'' (JArr [])"
  from assms(4) have o: "is_obj payload" and i: "wf_items ?its"
    by (simp_all add: wf_listing_def)
  from i obtain items where its: "?its = JArr items" and w: "list_all wf_route items"
    by (cases ?its) simp_all
  have "py_get payload ''items'' (JArr []) = Inr (JArr items)"
    using o its by (simp add: py_get_obj)
  then show ?thesis
    using assms(1-3)
    by (simp add: ingress_host_exists_def run_command_default inv_get_ingress_def
          item_loop_wf [OF w] listing_items_def its)
qed

text \<open>
  Claim C7, as amended. When the listing command exits non-zero, prints nothing, or prints
  text that \<open>json.loads\<close> rejects, the checker returns "no conflict". When the text parses
  to a listing of the expected shape, with any further keys, the checker returns the
  namespace and name of the first route, in listing order, that has a rule whose host is
  exactly the queried string, and "no conflict" when no route has one.
\<close>

theorem conflict_check_first_match:
  assumes "captured (ex w (calls s) inv_get_ingress) = (rc, out, err)"
  shows "(rc \<noteq> 0 \<or> out = [] \<or> json_loads w out = None \<longrightarrow>
            ingress_host_exists w host s =
              (Inr None, s\<lparr>calls := calls s @ [inv_get_ingress]\<rparr>)) \<and>
         (\<forall>payload. rc = 0 \<and> out \<noteq> [] \<and> json_loads w out = Some payload \<and>
              wf_listing payload \<longrightarrow>
            ingress_host_exists w host s =
              (Inr (map_option conflict_of (find (has_host host) (listing_items payload))),
               s\<lparr>calls := calls s @ [inv_get_ingress]\<rparr>))"
proof (intro conjI impI allI)
  assume "rc \<noteq> 0 \<or> out = [] \<or> json_loads w out = None"
  with assms show "ingress_host_exists w host s =
      (Inr None, s\<lparr>calls := calls s @ [inv_get_ingress]\<rparr>)"
    by (rule ingress_host_exists_unavailable)
next
  fix payload
  assume a: "rc = 0 \<and> out \<noteq> [] \<and> json_loads w out = Some payload \<and> wf_listing payload"
  with assms have "captured (ex w (calls s) inv_get_ingress) = (0, out, err)"
    by simp
  from ingress_host_exists_listing [OF this] a
  show "ingress_host_exists w host s =
      (Inr (map_option conflict_of (find (has_host host) (listing_items payload))),
       s\<lparr>calls := calls s @ [inv_get_ingress]\<rparr>)"
    by blast
qed

lemma kubectl_listing_wf: "wf_listing kubectl_listing"
  by (simp add: wf_listing_def kubectl_listing_def wf_route_def)

lemma kubectl_listing_match:
  "map_option conflict_of
     (find (has_host ''acme.example.com'') (listing_items kubectl_listing)) =
   Some \<lparr>c_namespace = JStr ''shop-0a0b0c0d'', c_ingress = JStr ''shop''\<rparr>"
  by (simp add: listing_items_def kubectl_listing_def has_host_def route_rules_def
        conflict_of_def)

theorem conflict_check_first_match_witness:
  "captured (ex (sample_world ex_listing loads_kubectl) (calls empty_state) inv_get_ingress)
     = (0, ''(listing)'', []) \<and>
   json_loads (sample_world ex_listing loads_kubectl) ''(listing)'' = Some kubectl_listing \<and>
   wf_listing kubectl_listing \<and>
   ingress_host_exists (sample_world ex_listing loads_kubectl) ''acme.example.com'' empty_state =
     (Inr (Some \<lparr>c_namespace = JStr ''shop-0a0b0c0d'', c_ingress = JStr ''shop''\<rparr>),
      \<lparr>stores = Map.empty,
       calls = [call [''kubectl'', ''get'', ''ingress'', ''-A'', ''-o'', ''json'']]\<rparr>)"
proof -
  let ?w = "sample_world ex_listing loads_kubectl"
  have h: "captured (ex ?w (calls empty_state) inv_get_ingress) = (0, ''(listing)'', [])"
    by (simp add: captured_def sample_defs ex_listing_def inv_defs cmd_defs text_eval)
  have j: "json_loads ?w ''(listing)'' = Some kubectl_listing"
    by (simp add: sample_world_def loads_kubectl_def)
  have g: "(0::int) = 0 \<and> ''(listing)'' \<noteq> [] \<and>
           json_loads ?w ''(listing)'' = Some kubectl_listing \<and> wf_listing kubectl_listing"
    using j kubectl_listing_wf by simp
  from conflict_check_first_match [OF h, of "''acme.example.com''"] g
  have "ingress_host_exists ?w ''acme.example.com'' empty_state =
          (Inr (map_option conflict_of
                  (find (has_host ''acme.example.com'') (listing_items kubectl_listing))),
           empty_state\<lparr>calls := calls empty_state @ [inv_get_ingress]\<rparr>)"
    by blast
  then show ?thesis
    using h j kubectl_listing_wf unfolding kubectl_listing_match
    by (simp add: empty_state_def inv_defs cmd_defs)
qed

theorem conflict_check_array_counterexample:
  "captured (ex (sample_world ex_array loads_array) (calls empty_state) inv_get_ingress)
     = (0, ''[]'', []) \<and>
   json_loads (sample_world ex_array loads_array) ''[]'' = Some (JArr []) \<and>
   fst (ingress_host_exists (sample_world ex_array loads_array) ''acme.example.com''
          empty_state) = Inl AttributeError"
  by (simp add: run_eval sample_defs ex_array_def loads_array_def inv_defs cmd_defs text_eval)


section \<open>Two provision calls that draw the same id\<close>

lemma beta_valid: "valid_request beta_request"
  by (simp add: valid_request_def sample_defs text_eval)

lemma first_acme_run:
  "stores (provision_all (sample_world ex_quiet no_json)
      [(sample_draws ''1a2b3c4d-aaaa-4bbb-8ccc-0123456789ab'', acme_request)] empty_state)
      ''1a2b3c4d'' =
   Some (new_record acme_request (sample_draws ''1a2b3c4d-aaaa-4bbb-8ccc-0123456789ab'')
           ''Ready'')"
  by (simp add: quiet_run [OF acme_valid]) (simp add: sample_draws_def)

text \<open>
  Claim C9 at a failing input: two provision calls, for different stores, whose UUIDs
  differ but start with the same 8 characters. Both calls get the id "1a2b3c4d"; the
  first call stores the record of "acme" under it, and the second call, which makes no
  lookup before it stores, replaces that record by the record of "beta".
\<close>

theorem repeated_id_overwrites_record:
  "uuid4 (sample_draws ''1a2b3c4d-aaaa-4bbb-8ccc-0123456789ab'') \<noteq>
     uuid4 (sample_draws ''1a2b3c4d-ffff-4000-8000-ba9876543210'') \<and>
   ids_of [(sample_draws ''1a2b3c4d-aaaa-4bbb-8ccc-0123456789ab'', acme_request),
           (sample_draws ''1a2b3c4d-ffff-4000-8000-ba9876543210'', beta_request)]
     = [''1a2b3c4d'', ''1a2b3c4d''] \<and>
   map_option rec_store_name
     (stores (provision_all (sample_world ex_quiet no_json)
        [(sample_draws ''1a2b3c4d-aaaa-4bbb-8ccc-0123456789ab'', acme_request)] empty_state)
        ''1a2b3c4d'') = Some ''acme'' \<and>
   map_option rec_store_name
     (stores (provision_all (sample_world ex_quiet no_json)
        [(sample_draws ''1a2b3c4d-aaaa-4bbb-8ccc-0123456789ab'', acme_request),
         (sample_draws ''1a2b3c4d-ffff-4000-8000-ba9876543210'', beta_request)] empty_state)
        ''1a2b3c4d'') = Some ''beta''"
proof -
  let ?w = "sample_world ex_quiet no_json"
  let ?d1 = "sample_draws ''1a2b3c4d-aaaa-4bbb-8ccc-0123456789ab''"
  let ?d2 = "sample_draws ''1a2b3c4d-ffff-4000-8000-ba9876543210''"
  have a: "uuid4 ?d1 \<noteq> uuid4 ?d2"
    by (simp add: sample_draws_def)
  have b: "ids_of [(?d1, acme_request), (?d2, beta_request)] = [''1a2b3c4d'', ''1a2b3c4d'']"
    by (simp add: ids_of_def sample_draws_def)
  have c: "map_option rec_store_name
             (stores (provision_all ?w [(?d1, acme_request)] empty_state) ''1a2b3c4d'')
           = Some ''acme''"
    unfolding first_acme_run
    by (simp add: acme_record [of "''-aaaa-4bbb-8ccc-0123456789ab''", simplified])
  have i: "take 8 (uuid4 ?d2) = ''1a2b3c4d''"
    by (simp add: sample_draws_def)
  have "stores (provision_all ?w [(?d1, acme_request), (?d2, beta_request)] empty_state)
          ''1a2b3c4d'' = Some (new_record beta_request ?d2 ''Ready'')"
    by (simp add: quiet_run [OF acme_valid] quiet_run [OF beta_valid] i)
  then have d: "map_option rec_store_name
             (stores (provision_all ?w [(?d1, acme_request), (?d2, beta_request)] empty_state)
                ''1a2b3c4d'') = Some ''beta''"
    by (simp add: new_record_def beta_request_def text_eval)
  from a b c d show ?thesis by blast
qed

end
